theory Spec2Isabelle
  imports Main "HOL-Library.Char_ord" "HOL-Library.List_Lexorder"
begin

section \<open>JavaScript values used by the services\<close>

text \<open>
  Strings are lists of code units below 256. An exception is the message of the thrown
  \<open>Error\<close>: a computation that may throw returns \<open>string + 'a\<close>, with \<open>Inl\<close> the
  message. A value that may be \<open>null\<close> or \<open>undefined\<close> is an \<open>option\<close>.
\<close>

definition truthy :: "string option \<Rightarrow> bool" where
  "truthy v = (case v of None \<Rightarrow> False | Some s \<Rightarrow> s \<noteq> [])"

definition digit_char :: "nat \<Rightarrow> char" where
  "digit_char d = ''0123456789'' ! d"

fun show_nat :: "nat \<Rightarrow> string" where
  "show_nat n = (if n < 10 then [digit_char n] else show_nat (n div 10) @ [digit_char (n mod 10)])"

declare show_nat.simps [simp del]

definition show_int :: "int \<Rightarrow> string" where
  "show_int i = (if i < 0 then CHR ''-'' # show_nat (nat (- i)) else show_nat (nat i))"

text \<open>Template literals print \<open>null\<close> and \<open>undefined\<close> by name.\<close>

definition show_nullable :: "string option \<Rightarrow> string" where
  "show_nullable v = (case v of None \<Rightarrow> ''null'' | Some s \<Rightarrow> s)"

definition show_undefined :: "string option \<Rightarrow> string" where
  "show_undefined v = (case v of None \<Rightarrow> ''undefined'' | Some s \<Rightarrow> s)"

definition is_space :: "char \<Rightarrow> bool" where
  "is_space c = (c \<in> set [CHR '' '', CHR 0x09, CHR 0x0A, CHR 0x0B, CHR 0x0C, CHR 0x0D, CHR 0xA0])"

definition trim :: "string \<Rightarrow> string" where
  "trim s = rev (dropWhile is_space (rev (dropWhile is_space s)))"

definition digit_val :: "char \<Rightarrow> nat option" where
  "digit_val c =
     (let n = (of_char c :: nat) in
      if 48 \<le> n \<and> n \<le> 57 then Some (n - 48)
      else if 97 \<le> n \<and> n \<le> 102 then Some (n - 87)
      else if 65 \<le> n \<and> n \<le> 70 then Some (n - 55)
      else None)"

definition is_radix_digit :: "nat \<Rightarrow> char \<Rightarrow> bool" where
  "is_radix_digit r c = (case digit_val c of None \<Rightarrow> False | Some d \<Rightarrow> d < r)"

definition digits_value :: "nat \<Rightarrow> string \<Rightarrow> nat" where
  "digits_value r ds = foldl (\<lambda>acc c. acc * r + (case digit_val c of None \<Rightarrow> 0 | Some d \<Rightarrow> d)) 0 ds"

text \<open>
  \<open>parseInt(s)\<close> with no radix: leading white space and one sign are skipped, a prefix
  \<open>0x\<close> selects radix 16, the longest run of digits is read, and no digit at all
  gives \<open>NaN\<close> (here \<open>None\<close>). A \<open>null\<close> argument is the string \<open>null\<close>, so \<open>NaN\<close>.
  The rounding of results beyond 2^53 is not modelled.
\<close>

definition parseInt :: "string option \<Rightarrow> int option" where
  "parseInt v =
     (let s = dropWhile is_space (show_nullable v);
          neg = (s \<noteq> [] \<and> hd s = CHR ''-'');
          s1 = (if s \<noteq> [] \<and> (hd s = CHR ''-'' \<or> hd s = CHR ''+'') then tl s else s);
          hex = (take 2 s1 = ''0x'' \<or> take 2 s1 = ''0X'');
          r = (if hex then 16 else 10);
          s2 = (if hex then drop 2 s1 else s1);
          z = takeWhile (is_radix_digit r) s2
      in if z = [] then None
         else Some ((if neg then - 1 else 1) * int (digits_value r z)))"

text \<open>
  A Supabase query never throws: it resolves to data or to an error. \<open>maybeSingle\<close>
  gives the error (here the outer \<open>None\<close>) when the request failed or several rows
  matched, \<open>null\<close> data for no row, and the row when exactly one matched.
\<close>

definition maybeSingle :: "bool \<Rightarrow> 'a list \<Rightarrow> 'a option option" where
  "maybeSingle failed rows =
     (if failed then None
      else case rows of [] \<Rightarrow> Some None | [r] \<Rightarrow> Some (Some r) | _ \<Rightarrow> None)"

text \<open>The \<open>data\<close> field of a query result: \<open>null\<close> on error.\<close>

definition data_of :: "'a option option \<Rightarrow> 'a option" where
  "data_of q = (case q of None \<Rightarrow> None | Some d \<Rightarrow> d)"

section \<open>The datastore and the external platforms\<close>

record Order =
  o_id :: string
  o_order_code :: string
  o_channel :: string
  o_status :: string
  o_receiver :: string
  o_address :: string
  o_city :: string
  o_external_order_id :: "string option"
  o_integration_id :: "string option"

record IntegrationConfig =
  apiKey :: "string option"
  webhookSecret :: "string option"

record Integration =
  i_id :: string
  i_platform_type :: string
  i_is_active :: bool
  i_config :: "IntegrationConfig option"
  i_sync_status :: string
  i_error_message :: "string option"
  i_last_sync_at :: "string option"

record OutboundSyncLog =
  l_id :: string
  l_order_id :: string
  l_integration_id :: string
  l_platform_type :: string
  l_channel :: string
  l_old_status :: string
  l_new_status :: string
  l_result :: string
  l_error_message :: "string option"
  l_retry_count :: int
  l_last_retry_at :: "string option"
  l_synced_at :: "string option"

text \<open>
  The rows of the other tables. Of an order and of an order item only the columns the
  services decide are kept; the columns copied unchanged from the storefront payload
  (second address line, state, postal code, country, e-mail, phone, totals, notes,
  dates, prices) are left out.
\<close>

record OrderItem =
  oi_order_id :: string
  oi_sku :: "string option"
  oi_item_name :: string
  oi_quantity :: int
  oi_external_product_id :: string
  oi_external_variation_id :: "string option"

record ImportOrderResult =
  ir_success :: bool
  ir_orderId :: "string option"
  ir_externalOrderId :: int
  ir_error :: "string option"

record ImportResults =
  im_total :: int
  im_imported :: int
  im_skipped :: int
  im_failed :: int
  im_errors :: "string list"

record InventorySyncResult =
  is_total :: int
  is_synced :: int
  is_skipped :: int
  is_failed :: int
  is_errors :: "string list"

datatype sync_details =
    ImportRun ImportResults
  | InventoryRun InventorySyncResult
  | WebhookOrder ImportOrderResult

datatype error_details = ErrorList "string list" | ErrorMessage string

record SyncLog =
  sl_id :: string
  sl_integration_id :: string
  sl_sync_type :: string
  sl_direction :: string
  sl_status :: string
  sl_records_processed :: int
  sl_records_failed :: int
  sl_details :: "sync_details option"
  sl_error_details :: "error_details option"
  sl_started_at :: string
  sl_completed_at :: "string option"

record ProductMapping =
  pm_id :: string
  pm_integration_id :: string
  pm_warehouse_product_id :: string
  pm_warehouse_product_type :: string
  pm_warehouse_variation_id :: "string option"
  pm_external_product_id :: string
  pm_external_variation_id :: "string option"
  pm_sync_inventory :: bool
  pm_last_synced_at :: "string option"

record CigarInventory =
  ci_product_id :: string
  ci_variation_id :: string
  ci_available :: "int option"

record StockRow =
  st_id :: string
  st_stock_quantity :: "int option"

record WebhookQueueEntry =
  q_integration_id :: string
  q_event_type :: string
  q_signature :: "string option"
  q_status :: string

text \<open>
  Every request that leaves for a platform is appended to \<open>calls\<close>, whether the
  platform then answers, refuses or is unreachable.
\<close>

datatype platform_call =
    WooUpdateOrderStatus int string
  | KubaccoUpdateOrderStatus string string string
  | WooGetOrders "(string \<times> string) list"
  | WooUpdateProductVariationStock "int option" int int
  | WooBatchUpdateProducts "(int option \<times> int) list"

record world =
  ops_orders :: "Order list"
  ops_order_items :: "OrderItem list"
  integrations :: "Integration list"
  integration_outbound_sync_logs :: "OutboundSyncLog list"
  integration_sync_logs :: "SyncLog list"
  product_mappings :: "ProductMapping list"
  inventory_cigars :: "CigarInventory list"
  bundles :: "StockRow list"
  accessories :: "StockRow list"
  webhook_queue :: "WebhookQueueEntry list"
  calls :: "platform_call list"

text \<open>
  What the storefront does with a signed request (\<open>WooCommerceClient.request\<close>): it
  answers with data, answers with an error status and body, or the request fails below
  HTTP. The client turns the last two into exceptions.
\<close>

datatype 'a http_outcome = Responded 'a | ErrorResponse nat string | NetworkFailure string

definition request :: "'a http_outcome \<Rightarrow> string + 'a" where
  "request h =
     (case h of
        Responded d \<Rightarrow> Inr d
      | ErrorResponse st body \<Rightarrow> Inl (''WooCommerce API Error: '' @ show_nat st @ '' - '' @ body)
      | NetworkFailure m \<Rightarrow> Inl m)"

text \<open>
  What \<open>fetch\<close> does with the wholesale application's endpoint: it rejects, or resolves
  to a response with a status and, when the body is JSON with an \<open>error\<close> field, that
  field.
\<close>

datatype fetch_outcome = FetchRejected string | FetchResponse nat "string option"

definition response_ok :: "nat \<Rightarrow> bool" where
  "response_ok st = (200 \<le> st \<and> st \<le> 299)"

text \<open>
  The answers of the world to one invocation of the status service: the failures of its
  queries, the clock, the wholesale endpoint, and for each insert of a log row the id
  the datastore gives it (\<open>None\<close> when the insert fails).
\<close>

record sync_env =
  now :: string
  log_query_failed :: bool
  order_query_failed :: bool
  integration_query_failed :: bool
  kubacco_fetch :: fetch_outcome
  success_insert :: "string option"
  failure_insert :: "string option"
  reread_failed :: bool
  update_failed :: bool

section \<open>Outbound status synchronisation (order-status-sync.service.ts)\<close>

record SyncResult =
  r_success :: bool
  r_syncLogId :: string
  r_orderId :: string
  r_platformType :: string
  r_newStatus :: string
  r_error :: "string option"

text \<open>
  The tables below are object literals indexed by a string. A key that is not in the
  literal reads \<open>undefined\<close>; the names inherited from \<open>Object.prototype\<close>, which read
  a function, are not modelled.
\<close>

definition validCombinations :: "string \<Rightarrow> string option" where
  "validCombinations orderChannel =
     (if orderChannel = ''WHOLESALE'' then Some ''KUBACCO_APP''
      else if orderChannel = ''ONLINE'' then Some ''WOOCOMMERCE''
      else None)"

definition validateChannelSegregation :: "string \<Rightarrow> string \<Rightarrow> string + unit" where
  "validateChannelSegregation orderChannel platformType =
     (let expectedPlatform = validCombinations orderChannel in
      if Some platformType \<noteq> expectedPlatform
      then Inl (''Channel segregation violation: '' @ orderChannel @ '' orders cannot sync to ''
                @ platformType @ ''. Expected: '' @ show_undefined expectedPlatform)
      else Inr ())"

definition mapToWooCommerceStatus :: "string \<Rightarrow> string" where
  "mapToWooCommerceStatus warehouseStatus =
     (case map_of
        [(''PROCESSING'', ''processing''), (''READY_TO_SHIP'', ''processing''),
         (''SHIPMENT_CREATED'', ''processing''), (''PACKAGING'', ''processing''),
         (''SHIPPED'', ''completed''), (''IN_TRANSIT'', ''completed''),
         (''DELIVERED'', ''completed''), (''CANCELLED'', ''cancelled''),
         (''RETURNED'', ''refunded'')] warehouseStatus of
        Some s \<Rightarrow> s | None \<Rightarrow> ''processing'')"

definition mapToKubaccoStatus :: "string \<Rightarrow> string" where
  "mapToKubaccoStatus warehouseStatus =
     (case map_of
        [(''PROCESSING'', ''processing''), (''READY_TO_SHIP'', ''processing''),
         (''SHIPMENT_CREATED'', ''processing''), (''PACKAGING'', ''processing''),
         (''SHIPPED'', ''completed''), (''IN_TRANSIT'', ''in-transit''),
         (''DELIVERED'', ''completed''), (''CANCELLED'', ''cancelled''),
         (''RETURNED'', ''refunded'')] warehouseStatus of
        Some s \<Rightarrow> s | None \<Rightarrow> ''processing'')"

record SyncLogData =
  d_orderId :: string
  d_integrationId :: string
  d_platformType :: string
  d_channel :: string
  d_oldStatus :: string
  d_newStatus :: string
  d_result :: string
  d_errorMessage :: "string option"
  d_syncedAt :: "string option"

text \<open>
  \<open>createSyncLog\<close> inserts one row with \<open>retry_count\<close> 0 and resolves to the stored row,
  or to no data when the insert failed.
\<close>

definition createSyncLog :: "string option \<Rightarrow> SyncLogData \<Rightarrow> world \<Rightarrow> OutboundSyncLog option \<times> world" where
  "createSyncLog inserted d w =
     (case inserted of
        None \<Rightarrow> (None, w)
      | Some new_id \<Rightarrow>
          (let row = \<lparr> l_id = new_id, l_order_id = d_orderId d,
                       l_integration_id = d_integrationId d, l_platform_type = d_platformType d,
                       l_channel = d_channel d, l_old_status = d_oldStatus d,
                       l_new_status = d_newStatus d, l_result = d_result d,
                       l_error_message = d_errorMessage d, l_retry_count = 0,
                       l_last_retry_at = None, l_synced_at = d_syncedAt d \<rparr>
           in (Some row,
               w\<lparr> integration_outbound_sync_logs := integration_outbound_sync_logs w @ [row] \<rparr>)))"

text \<open>
  The optional \<open>wooCommerceClient\<close> argument is \<open>None\<close> when the caller passes none, and
  otherwise what the storefront does with the client's request. Reading \<open>id\<close> of the
  \<open>null\<close> data of a failed insert is a \<open>TypeError\<close>.
\<close>

definition null_id_error :: string where
  "null_id_error = ''Cannot read properties of null (reading id)''"

definition syncToWooCommerce ::
  "sync_env \<Rightarrow> Order \<Rightarrow> Integration \<Rightarrow> string \<Rightarrow> string \<Rightarrow> unit http_outcome option \<Rightarrow> world
     \<Rightarrow> (string + SyncResult) \<times> world" where
  "syncToWooCommerce env order integration newStatus oldStatus wooCommerceClient w =
     (case wooCommerceClient of
        None \<Rightarrow> (Inl ''WooCommerceClient not provided'', w)
      | Some http \<Rightarrow>
          (case parseInt (o_external_order_id order) of
             None \<Rightarrow> (Inl (''Invalid WooCommerce order ID: '' @ show_nullable (o_external_order_id order)), w)
           | Some externalOrderId \<Rightarrow>
               (let wooStatus = mapToWooCommerceStatus newStatus;
                    w1 = w\<lparr> calls := calls w @ [WooUpdateOrderStatus externalOrderId wooStatus] \<rparr>
                in case request http of
                     Inl e \<Rightarrow> (Inl e, w1)
                   | Inr _ \<Rightarrow>
                       (case createSyncLog (success_insert env)
                               \<lparr> d_orderId = o_id order, d_integrationId = i_id integration,
                                 d_platformType = ''WOOCOMMERCE'', d_channel = o_channel order,
                                 d_oldStatus = oldStatus, d_newStatus = newStatus,
                                 d_result = ''SUCCESS'', d_errorMessage = None,
                                 d_syncedAt = Some (now env) \<rparr> w1 of
                          (None, w2) \<Rightarrow> (Inl null_id_error, w2)
                        | (Some row, w2) \<Rightarrow>
                            (Inr \<lparr> r_success = True, r_syncLogId = l_id row, r_orderId = o_id order,
                                   r_platformType = ''WOOCOMMERCE'', r_newStatus = newStatus,
                                   r_error = None \<rparr>, w2)))))"

definition syncToKubacco ::
  "sync_env \<Rightarrow> Order \<Rightarrow> Integration \<Rightarrow> string \<Rightarrow> string \<Rightarrow> world \<Rightarrow> (string + SyncResult) \<times> world" where
  "syncToKubacco env order integration newStatus oldStatus w =
     (if \<not> truthy (o_external_order_id order)
      then (Inl (''No Kubacco order ID found for order '' @ o_id order), w)
      else
        (let kubaccoOrderId = the (o_external_order_id order);
             kubacoStatus = mapToKubaccoStatus newStatus;
             key = (case i_config integration of None \<Rightarrow> None | Some c \<Rightarrow> apiKey c)
         in if \<not> truthy key then (Inl ''Kubacco API key not configured'', w)
            else
              (let w1 = w\<lparr> calls := calls w @ [KubaccoUpdateOrderStatus (the key) kubaccoOrderId kubacoStatus] \<rparr>
               in case kubacco_fetch env of
                    FetchRejected m \<Rightarrow> (Inl m, w1)
                  | FetchResponse st body_error \<Rightarrow>
                      if \<not> response_ok st
                      then (Inl (''Kubacco API error: '' @ show_nat st @ '' - ''
                                 @ (if truthy body_error then the body_error else ''Unknown error'')), w1)
                      else
                        (case createSyncLog (success_insert env)
                                \<lparr> d_orderId = o_id order, d_integrationId = i_id integration,
                                  d_platformType = ''KUBACCO_APP'', d_channel = o_channel order,
                                  d_oldStatus = oldStatus, d_newStatus = newStatus,
                                  d_result = ''SUCCESS'', d_errorMessage = None,
                                  d_syncedAt = Some (now env) \<rparr> w1 of
                           (None, w2) \<Rightarrow> (Inl null_id_error, w2)
                         | (Some row, w2) \<Rightarrow>
                             (Inr \<lparr> r_success = True, r_syncLogId = l_id row, r_orderId = o_id order,
                                    r_platformType = ''KUBACCO_APP'', r_newStatus = newStatus,
                                    r_error = None \<rparr>, w2)))))"

definition select_order :: "bool \<Rightarrow> string \<Rightarrow> world \<Rightarrow> Order option option" where
  "select_order failed oid w = maybeSingle failed (filter (\<lambda>row. o_id row = oid) (ops_orders w))"

definition select_integration :: "bool \<Rightarrow> string option \<Rightarrow> world \<Rightarrow> Integration option option" where
  "select_integration failed iid w =
     maybeSingle failed (filter (\<lambda>i. Some (i_id i) = iid) (integrations w))"

definition select_sync_log :: "bool \<Rightarrow> string \<Rightarrow> world \<Rightarrow> OutboundSyncLog option option" where
  "select_sync_log failed lid w =
     maybeSingle failed (filter (\<lambda>l. l_id l = lid) (integration_outbound_sync_logs w))"

text \<open>The body of the \<open>try\<close> block of \<open>syncStatusToExternalPlatform\<close>.\<close>

definition sync_attempt ::
  "sync_env \<Rightarrow> string \<Rightarrow> string \<Rightarrow> unit http_outcome option \<Rightarrow> world \<Rightarrow> (string + SyncResult) \<times> world" where
  "sync_attempt env oid newStatus wooCommerceClient w =
     (case select_order (order_query_failed env) oid w of
        Some (Some order) \<Rightarrow>
          (case select_integration (integration_query_failed env) (o_integration_id order) w of
             Some (Some integration) \<Rightarrow>
               (case validateChannelSegregation (o_channel order) (i_platform_type integration) of
                  Inl e \<Rightarrow> (Inl e, w)
                | Inr _ \<Rightarrow>
                    (let oldStatus = o_status order in
                     if i_platform_type integration = ''WOOCOMMERCE''
                     then syncToWooCommerce env order integration newStatus oldStatus wooCommerceClient w
                     else if i_platform_type integration = ''KUBACCO_APP''
                     then syncToKubacco env order integration newStatus oldStatus w
                     else (Inl (''Unsupported platform type: '' @ i_platform_type integration), w)))
           | _ \<Rightarrow> (Inl (''Integration not found for order '' @ oid), w))
      | _ \<Rightarrow> (Inl (''Order not found: '' @ oid), w))"

definition syncStatusToExternalPlatform ::
  "sync_env \<Rightarrow> string \<Rightarrow> string \<Rightarrow> unit http_outcome option \<Rightarrow> world \<Rightarrow> SyncResult \<times> world" where
  "syncStatusToExternalPlatform env oid newStatus wooCommerceClient w =
     (case sync_attempt env oid newStatus wooCommerceClient w of
        (Inr syncResult, w1) \<Rightarrow> (syncResult, w1)
      | (Inl errorMessage, w1) \<Rightarrow>
          (case createSyncLog (failure_insert env)
                  \<lparr> d_orderId = oid, d_integrationId = [], d_platformType = ''UNKNOWN'',
                    d_channel = [], d_oldStatus = [], d_newStatus = newStatus,
                    d_result = ''FAILED'', d_errorMessage = Some errorMessage,
                    d_syncedAt = None \<rparr> w1 of
             (syncLog, w2) \<Rightarrow>
               (\<lparr> r_success = False,
                   r_syncLogId = (case syncLog of None \<Rightarrow> [] | Some row \<Rightarrow> l_id row),
                   r_orderId = oid, r_platformType = ''UNKNOWN'', r_newStatus = newStatus,
                   r_error = Some errorMessage \<rparr>, w2)))"

text \<open>
  An update of the rows whose id is the given one. A failed update changes nothing and
  is not looked at by the service.
\<close>

definition update_sync_log ::
  "bool \<Rightarrow> string \<Rightarrow> (OutboundSyncLog \<Rightarrow> OutboundSyncLog) \<Rightarrow> world \<Rightarrow> world" where
  "update_sync_log failed lid f w =
     (if failed then w
      else w\<lparr> integration_outbound_sync_logs :=
                 map (\<lambda>l. if l_id l = lid then f l else l) (integration_outbound_sync_logs w) \<rparr>)"

text \<open>The body of the \<open>try\<close> block of \<open>retrySyncLog\<close>.\<close>

definition retry_attempt ::
  "sync_env \<Rightarrow> string \<Rightarrow> unit http_outcome option \<Rightarrow> world \<Rightarrow> (string + SyncResult) \<times> world" where
  "retry_attempt env lid wooCommerceClient w =
     (case select_sync_log (log_query_failed env) lid w of
        Some (Some syncLog) \<Rightarrow>
          if l_retry_count syncLog \<ge> 5 then (Inl ''Maximum retry attempts exceeded (5)'', w)
          else
            (case data_of (select_order (order_query_failed env) (l_order_id syncLog) w) of
               None \<Rightarrow> (Inl (''Order not found: '' @ l_order_id syncLog), w)
             | Some order \<Rightarrow>
                 (case data_of (select_integration (integration_query_failed env)
                                  (Some (l_integration_id syncLog)) w) of
                    None \<Rightarrow> (Inl (''Integration not found: '' @ l_integration_id syncLog), w)
                  | Some integration \<Rightarrow>
                      (case (if l_platform_type syncLog = ''WOOCOMMERCE''
                             then syncToWooCommerce env order integration (l_new_status syncLog)
                                    (l_old_status syncLog) wooCommerceClient w
                             else if l_platform_type syncLog = ''KUBACCO_APP''
                             then syncToKubacco env order integration (l_new_status syncLog)
                                    (l_old_status syncLog) w
                             else (Inl (''Unknown platform type: '' @ l_platform_type syncLog), w)) of
                         (Inl e, w1) \<Rightarrow> (Inl e, w1)
                       | (Inr result, w1) \<Rightarrow>
                           (Inr result,
                            update_sync_log (update_failed env) lid
                              (\<lambda>l. l\<lparr> l_retry_count := l_retry_count syncLog + 1,
                                       l_last_retry_at := Some (now env) \<rparr>) w1))))
      | _ \<Rightarrow> (Inl (''Sync log not found: '' @ lid), w))"

text \<open>
  In the \<open>catch\<close> block the new count is written \<open>retry_count || 0 + 1\<close>, which
  JavaScript reads \<open>retry_count || (0 + 1)\<close>: the count read back when it is not 0,
  and 1 otherwise.
\<close>

definition retrySyncLog ::
  "sync_env \<Rightarrow> string \<Rightarrow> unit http_outcome option \<Rightarrow> world \<Rightarrow> SyncResult \<times> world" where
  "retrySyncLog env lid wooCommerceClient w =
     (case retry_attempt env lid wooCommerceClient w of
        (Inr result, w1) \<Rightarrow> (result, w1)
      | (Inl errorMessage, w1) \<Rightarrow>
          (let reread = data_of (select_sync_log (reread_failed env) lid w1);
               count = (case reread of
                          None \<Rightarrow> 0 + 1
                        | Some l \<Rightarrow> if l_retry_count l \<noteq> 0 then l_retry_count l else 0 + 1)
           in (\<lparr> r_success = False, r_syncLogId = lid, r_orderId = [], r_platformType = [],
                 r_newStatus = [], r_error = Some errorMessage \<rparr>,
               update_sync_log (update_failed env) lid
                 (\<lambda>l. l\<lparr> l_retry_count := count, l_last_retry_at := Some (now env),
                          l_error_message := Some errorMessage \<rparr>) w1)))"

text \<open>\<open>getFailedSyncs\<close>: the rows offered for a retry, oldest first.\<close>

definition getFailedSyncs :: "nat \<Rightarrow> world \<Rightarrow> OutboundSyncLog list" where
  "getFailedSyncs limit w =
     take limit (filter (\<lambda>l. l_result l = ''FAILED'' \<and> l_retry_count l < 5)
                   (integration_outbound_sync_logs w))"

text \<open>The property of the log table that every failed row names no platform.\<close>

definition failed_rows_unknown :: "world \<Rightarrow> bool" where
  "failed_rows_unknown w =
     (\<forall>l \<in> set (integration_outbound_sync_logs w).
        l_result l = ''FAILED'' \<longrightarrow>
        l_platform_type l = ''UNKNOWN'' \<and> l_integration_id l = [] \<and> l_channel l = [])"

section \<open>The request signer (woocommerce-client.ts)\<close>

text \<open>
  \<open>encodeURIComponent\<close> keeps the letters, the digits and \<open>- _ . ! ~ * ' ( )\<close>, and
  writes every other code unit as the percent-escaped bytes of its UTF-8 encoding (one
  byte below 128, two bytes from 128 to 255).
\<close>

definition is_unreserved :: "char \<Rightarrow> bool" where
  "is_unreserved c =
     (c \<in> set ''ABCDEFGHIJKLMNOPQRSTUVWXYZabcdefghijklmnopqrstuvwxyz0123456789-_.!~*()''
      \<or> c = CHR 0x27)"

definition hex_digit :: "nat \<Rightarrow> char" where
  "hex_digit d = ''0123456789ABCDEF'' ! d"

definition percent_byte :: "nat \<Rightarrow> string" where
  "percent_byte b = [CHR ''%'', hex_digit (b div 16), hex_digit (b mod 16)]"

definition encode_unit :: "char \<Rightarrow> string" where
  "encode_unit c =
     (let n = (of_char c :: nat) in
      if is_unreserved c then [c]
      else if n < 128 then percent_byte n
      else percent_byte (192 + n div 64) @ percent_byte (128 + n mod 64))"

definition encodeURIComponent :: "string \<Rightarrow> string" where
  "encodeURIComponent s = concat (map encode_unit s)"

text \<open>\<open>toUpperCase\<close> on the letters of ASCII, which HTTP methods are made of.\<close>

definition toUpperCase :: "string \<Rightarrow> string" where
  "toUpperCase s =
     map (\<lambda>c. let n = (of_char c :: nat) in if 97 \<le> n \<and> n \<le> 122 then char_of (n - 32) else c) s"

fun join :: "string \<Rightarrow> string list \<Rightarrow> string" where
  "join sep [] = []"
| "join sep [x] = x"
| "join sep (x # y # ys) = x @ sep @ join sep (y # ys)"

text \<open>
  The parameter object is a list of entries with distinct keys. \<open>Object.keys(params).sort()\<close>
  orders the keys themselves, by code units, before any of them is encoded.
\<close>

definition param_value :: "(string \<times> string) list \<Rightarrow> string \<Rightarrow> string" where
  "param_value params key = show_undefined (map_of params key)"

definition sortedParams :: "(string \<times> string) list \<Rightarrow> string" where
  "sortedParams params =
     join ''&'' (map (\<lambda>key. encodeURIComponent key @ ''='' @ encodeURIComponent (param_value params key))
                   (sort (map fst params)))"

definition signatureBaseString :: "string \<Rightarrow> string \<Rightarrow> (string \<times> string) list \<Rightarrow> string" where
  "signatureBaseString method url params =
     join ''&'' [toUpperCase method, encodeURIComponent url, encodeURIComponent (sortedParams params)]"

definition signingKey :: "string \<Rightarrow> string" where
  "signingKey consumerSecret = encodeURIComponent consumerSecret @ ''&''"

text \<open>
  The keyed hash is Node's \<open>crypto.createHmac('sha256', key).update(text).digest('base64')\<close>;
  it is a parameter \<open>hmac_sha256_base64 key text\<close> of the model.
\<close>

definition generateOAuthSignature ::
  "(string \<Rightarrow> string \<Rightarrow> string) \<Rightarrow> string \<Rightarrow> string \<Rightarrow> string \<Rightarrow> (string \<times> string) list \<Rightarrow> string" where
  "generateOAuthSignature hmac_sha256_base64 consumerSecret method url params =
     hmac_sha256_base64 (signingKey consumerSecret) (signatureBaseString method url params)"

text \<open>
  The signature as the specification words it: every key and value is encoded, the
  encoded entries are sorted by their encoded key, and the base string is
  \<open>METHOD&encode(URL)&encode(sorted_param_string)\<close>.
\<close>

definition spec_sorted_param_string :: "(string \<times> string) list \<Rightarrow> string" where
  "spec_sorted_param_string params =
     join ''&'' (map (\<lambda>(k, v). k @ ''='' @ v)
                   (sort_key fst (map (\<lambda>(k, v). (encodeURIComponent k, encodeURIComponent v)) params)))"

definition spec_base_string :: "string \<Rightarrow> string \<Rightarrow> (string \<times> string) list \<Rightarrow> string" where
  "spec_base_string method url params =
     toUpperCase method @ ''&'' @ encodeURIComponent url @ ''&''
       @ encodeURIComponent (spec_sorted_param_string params)"

definition spec_signature ::
  "(string \<Rightarrow> string \<Rightarrow> string) \<Rightarrow> string \<Rightarrow> string \<Rightarrow> string \<Rightarrow> (string \<times> string) list \<Rightarrow> string" where
  "spec_signature hmac_sha256_base64 consumerSecret method url params =
     hmac_sha256_base64 (encodeURIComponent consumerSecret @ ''&'') (spec_base_string method url params)"

section \<open>The integration registry (integration.service.ts)\<close>

text \<open>
  \<open>single\<close> resolves to the row when exactly one matched and to an error otherwise;
  the registry throws that error. A failed request is given by its message.
\<close>

definition no_single_row :: string where
  "no_single_row = ''JSON object requested, multiple (or no) rows returned''"

definition single :: "string option \<Rightarrow> 'a list \<Rightarrow> string + 'a" where
  "single failed rows =
     (case failed of
        Some m \<Rightarrow> Inl m
      | None \<Rightarrow> (case rows of [r] \<Rightarrow> Inr r | _ \<Rightarrow> Inl no_single_row))"

definition getIntegration :: "string option \<Rightarrow> string \<Rightarrow> world \<Rightarrow> string + Integration option" where
  "getIntegration failed iid w =
     (case single failed (filter (\<lambda>i. i_id i = iid) (integrations w)) of
        Inl e \<Rightarrow> Inl e
      | Inr i \<Rightarrow> Inr (Some i))"

text \<open>
  An update followed by \<open>select().single()\<close>: the rows with the id are changed, and the
  call throws unless exactly one row came back. The fields of the update that are
  \<open>undefined\<close> are not sent, so they keep their value.
\<close>

definition updateIntegration ::
  "string option \<Rightarrow> string \<Rightarrow> (Integration \<Rightarrow> Integration) \<Rightarrow> world \<Rightarrow> (string + Integration) \<times> world" where
  "updateIntegration failed iid f w =
     (case failed of
        Some m \<Rightarrow> (Inl m, w)
      | None \<Rightarrow>
          (single None (map f (filter (\<lambda>i. i_id i = iid) (integrations w))),
           w\<lparr> integrations := map (\<lambda>i. if i_id i = iid then f i else i) (integrations w) \<rparr>))"

definition integrationService_createSyncLog ::
  "string + string \<Rightarrow> string \<Rightarrow> string \<Rightarrow> string \<Rightarrow> string \<Rightarrow> world \<Rightarrow> (string + SyncLog) \<times> world" where
  "integrationService_createSyncLog inserted iid sync_type direction started w =
     (case inserted of
        Inl m \<Rightarrow> (Inl m, w)
      | Inr new_id \<Rightarrow>
          (let log = \<lparr> sl_id = new_id, sl_integration_id = iid, sl_sync_type = sync_type,
                       sl_direction = direction, sl_status = ''RUNNING'',
                       sl_records_processed = 0, sl_records_failed = 0, sl_details = None,
                       sl_error_details = None, sl_started_at = started,
                       sl_completed_at = None \<rparr>
           in (Inr log, w\<lparr> integration_sync_logs := integration_sync_logs w @ [log] \<rparr>)))"

definition integrationService_updateSyncLog ::
  "string option \<Rightarrow> string \<Rightarrow> (SyncLog \<Rightarrow> SyncLog) \<Rightarrow> world \<Rightarrow> (string + SyncLog) \<times> world" where
  "integrationService_updateSyncLog failed lid f w =
     (case failed of
        Some m \<Rightarrow> (Inl m, w)
      | None \<Rightarrow>
          (single None (map f (filter (\<lambda>l. sl_id l = lid) (integration_sync_logs w))),
           w\<lparr> integration_sync_logs :=
                 map (\<lambda>l. if sl_id l = lid then f l else l) (integration_sync_logs w) \<rparr>))"

definition getProductMappings :: "string option \<Rightarrow> string \<Rightarrow> world \<Rightarrow> string + ProductMapping list" where
  "getProductMappings failed iid w =
     (case failed of
        Some m \<Rightarrow> Inl m
      | None \<Rightarrow> Inr (filter (\<lambda>m. pm_integration_id m = iid) (product_mappings w)))"

definition queueWebhook ::
  "string option \<Rightarrow> string \<Rightarrow> string \<Rightarrow> string option \<Rightarrow> world \<Rightarrow> (string + unit) \<times> world" where
  "queueWebhook failed iid eventType signature w =
     (case failed of
        Some m \<Rightarrow> (Inl m, w)
      | None \<Rightarrow>
          (Inr (),
           w\<lparr> webhook_queue := webhook_queue w @
                 [\<lparr> q_integration_id = iid, q_event_type = eventType, q_signature = signature,
                    q_status = ''PENDING'' \<rparr>] \<rparr>))"

text \<open>
  The constructor of the storefront client reads \<open>config.version\<close>, a \<open>TypeError\<close> when
  the integration has no configuration.
\<close>

definition new_WooCommerceClient :: "IntegrationConfig option \<Rightarrow> string + IntegrationConfig" where
  "new_WooCommerceClient config =
     (case config of
        None \<Rightarrow> Inl ''Cannot read properties of null (reading version)''
      | Some c \<Rightarrow> Inr c)"

section \<open>Order import (order-import.service.ts)\<close>

record Address =
  a_first_name :: string
  a_last_name :: string
  a_address_1 :: string
  a_city :: string

record LineItem =
  li_name :: string
  li_product_id :: int
  li_variation_id :: int
  li_quantity :: int
  li_sku :: string

record WooCommerceOrder =
  wo_id :: int
  wo_order_key :: string
  wo_status :: string
  wo_billing :: Address
  wo_shipping :: Address
  wo_line_items :: "LineItem list"

text \<open>
  The answers of the datastore to the import of one order: whether the existence query
  failed, the id given to the inserted order or the error of the insert, and whether
  the insert of the items failed.
\<close>

record import_env =
  exists_query_failed :: bool
  order_insert :: "string + string"
  items_insert_failed :: bool

definition mapWooCommerceStatusToWarehouse :: "string \<Rightarrow> string" where
  "mapWooCommerceStatusToWarehouse wooStatus =
     (case map_of
        [(''pending'', ''PROCESSING''), (''processing'', ''PROCESSING''),
         (''on-hold'', ''PROCESSING''), (''completed'', ''DELIVERED''),
         (''cancelled'', ''CANCELLED''), (''refunded'', ''RETURNED''),
         (''failed'', ''CANCELLED'')] wooStatus of
        Some s \<Rightarrow> s | None \<Rightarrow> ''PROCESSING'')"

text \<open>The stored external id is the decimal text of the storefront's number.\<close>

definition same_external_order :: "int \<Rightarrow> string \<Rightarrow> Order \<Rightarrow> bool" where
  "same_external_order externalOrderId integrationId row =
     (o_external_order_id row = Some (show_int externalOrderId)
      \<and> o_integration_id row = Some integrationId)"

definition orderExists :: "bool \<Rightarrow> int \<Rightarrow> string \<Rightarrow> world \<Rightarrow> bool" where
  "orderExists failed externalOrderId integrationId w =
     (case maybeSingle failed (filter (same_external_order externalOrderId integrationId) (ops_orders w)) of
        None \<Rightarrow> False
      | Some d \<Rightarrow> d \<noteq> None)"

definition importOrder :: "import_env \<Rightarrow> WooCommerceOrder \<Rightarrow> string \<Rightarrow> world \<Rightarrow> ImportOrderResult \<times> world" where
  "importOrder env wooOrder integrationId w =
     (if orderExists (exists_query_failed env) (wo_id wooOrder) integrationId w
      then (\<lparr> ir_success = False, ir_orderId = None, ir_externalOrderId = wo_id wooOrder,
               ir_error = Some ''Order already imported'' \<rparr>, w)
      else
        (let shippingAddress = wo_shipping wooOrder;
             billingAddress = wo_billing wooOrder;
             useShipping = (a_address_1 shippingAddress \<noteq> [] \<and> a_city shippingAddress \<noteq> [])
         in case order_insert env of
              Inl m \<Rightarrow>
                (\<lparr> ir_success = False, ir_orderId = None, ir_externalOrderId = wo_id wooOrder,
                   ir_error = Some (''Failed to create order: '' @ m) \<rparr>, w)
            | Inr new_id \<Rightarrow>
                (let order =
                       \<lparr> o_id = new_id,
                         o_order_code = (if wo_order_key wooOrder \<noteq> [] then wo_order_key wooOrder
                                         else ''WOO-'' @ show_int (wo_id wooOrder)),
                         o_channel = ''ONLINE'',
                         o_status = mapWooCommerceStatusToWarehouse (wo_status wooOrder),
                         o_receiver =
                           (if useShipping
                            then trim (a_first_name shippingAddress @ '' '' @ a_last_name shippingAddress)
                            else trim (a_first_name billingAddress @ '' '' @ a_last_name billingAddress)),
                         o_address = (if useShipping then a_address_1 shippingAddress
                                      else a_address_1 billingAddress),
                         o_city = (if useShipping then a_city shippingAddress else a_city billingAddress),
                         o_external_order_id = Some (show_int (wo_id wooOrder)),
                         o_integration_id = Some integrationId \<rparr>;
                     orderItems =
                       map (\<lambda>item.
                              \<lparr> oi_order_id = new_id,
                                oi_sku = (if li_sku item \<noteq> [] then Some (li_sku item) else None),
                                oi_item_name = li_name item, oi_quantity = li_quantity item,
                                oi_external_product_id = show_int (li_product_id item),
                                oi_external_variation_id =
                                  (if li_variation_id item \<noteq> 0
                                   then Some (show_int (li_variation_id item)) else None) \<rparr>)
                           (wo_line_items wooOrder);
                     w1 = w\<lparr> ops_orders := ops_orders w @ [order] \<rparr>;
                     w2 = (if orderItems \<noteq> [] \<and> \<not> items_insert_failed env
                           then w1\<lparr> ops_order_items := ops_order_items w1 @ orderItems \<rparr>
                           else w1)
                 in (\<lparr> ir_success = True, ir_orderId = Some new_id,
                        ir_externalOrderId = wo_id wooOrder, ir_error = None \<rparr>, w2))))"

text \<open>\<open>String.prototype.includes\<close>.\<close>

fun string_includes :: "string \<Rightarrow> string \<Rightarrow> bool" where
  "string_includes [] p = (p = [])"
| "string_includes (c # cs) p = (take (length p) (c # cs) = p \<or> string_includes cs p)"

text \<open>The body of the loop of the batch import, after the order has been imported.\<close>

definition tally :: "WooCommerceOrder \<Rightarrow> ImportOrderResult \<Rightarrow> ImportResults \<Rightarrow> ImportResults" where
  "tally wooOrder result results =
     (if ir_success result then results\<lparr> im_imported := im_imported results + 1 \<rparr>
      else if (case ir_error result of None \<Rightarrow> False | Some e \<Rightarrow> string_includes e ''already imported'')
      then results\<lparr> im_skipped := im_skipped results + 1 \<rparr>
      else results\<lparr> im_failed := im_failed results + 1,
                    im_errors := im_errors results
                      @ [''Order '' @ show_int (wo_id wooOrder) @ '': '' @ show_undefined (ir_error result)] \<rparr>)"

fun import_loop ::
  "(nat \<Rightarrow> import_env) \<Rightarrow> nat \<Rightarrow> string \<Rightarrow> WooCommerceOrder list \<Rightarrow> ImportResults \<Rightarrow> world
     \<Rightarrow> ImportResults \<times> world" where
  "import_loop envs i integrationId [] results w = (results, w)"
| "import_loop envs i integrationId (wooOrder # rest) results w =
     (case importOrder (envs i) wooOrder integrationId w of
        (result, w1) \<Rightarrow> import_loop envs (Suc i) integrationId rest (tally wooOrder result results) w1)"

record ImportOptions =
  opt_status :: "string option"
  opt_after :: "string option"
  opt_limit :: "int option"

text \<open>
  The answers of the world to one run of a pipeline: the clock, the failures of the
  registry's calls (with their messages), the id given to the run's log row, what the
  storefront answers, and the answers of the datastore to each record, by its position
  in the run.
\<close>

record mapping_env =
  inventory_query_failed :: bool
  variation_response :: "unit http_outcome"

record run_env =
  clock :: string
  get_integration_failed :: "string option"
  sync_log_insert :: "string + string"
  orders_response :: "WooCommerceOrder list http_outcome"
  order_envs :: "nat \<Rightarrow> import_env"
  get_mappings_failed :: "string option"
  mapping_envs :: "nat \<Rightarrow> mapping_env"
  batch_response :: "unit http_outcome"
  close_log_failed :: "string option"
  close_integration_failed :: "string option"
  fail_log_failed :: "string option"
  fail_integration_failed :: "string option"
  queue_insert_failed :: "string option"

text \<open>
  The \<open>catch\<close> block of a run, the same in the import and in the export: the log row
  is marked failed, the integration is marked in error, and the error is thrown again.
\<close>

definition run_failed :: "run_env \<Rightarrow> string \<Rightarrow> string \<Rightarrow> string \<Rightarrow> world \<Rightarrow> string \<times> world" where
  "run_failed env logId integrationId e w =
     (case integrationService_updateSyncLog (fail_log_failed env) logId
             (\<lambda>l. l\<lparr> sl_status := ''FAILED'', sl_completed_at := Some (clock env),
                      sl_error_details := Some (ErrorMessage e) \<rparr>) w of
        (Inl e1, w1) \<Rightarrow> (e1, w1)
      | (Inr _, w1) \<Rightarrow>
          (case updateIntegration (fail_integration_failed env) integrationId
                  (\<lambda>i. i\<lparr> i_sync_status := ''ERROR'', i_error_message := Some e \<rparr>) w1 of
             (Inl e2, w2) \<Rightarrow> (e2, w2)
           | (Inr _, w2) \<Rightarrow> (e, w2)))"

definition run_status :: "int \<Rightarrow> int \<Rightarrow> string" where
  "run_status failed succeeded =
     (if failed = 0 then ''SUCCESS'' else if succeeded > 0 then ''PARTIAL'' else ''FAILED'')"

text \<open>The query parameters of the request for the orders.\<close>

definition order_query_params :: "ImportOptions \<Rightarrow> (string \<times> string) list" where
  "order_query_params options =
     [(''per_page'', (case opt_limit options of
                        None \<Rightarrow> ''100''
                      | Some n \<Rightarrow> if n \<noteq> 0 then show_int n else ''100'')),
      (''page'', ''1'')]
     @ (if truthy (opt_status options) then [(''status'', the (opt_status options))] else [])
     @ (if truthy (opt_after options) then [(''after'', the (opt_after options))] else [])"

text \<open>The body of the \<open>try\<close> block of \<open>importOrdersFromWooCommerce\<close>.\<close>

definition import_run ::
  "run_env \<Rightarrow> string \<Rightarrow> ImportOptions \<Rightarrow> SyncLog \<Rightarrow> world \<Rightarrow> (string + ImportResults) \<times> world" where
  "import_run env integrationId options syncLog w =
     (let w1 = w\<lparr> calls := calls w @ [WooGetOrders (order_query_params options)] \<rparr>
      in case request (orders_response env) of
           Inl e \<Rightarrow> (Inl e, w1)
         | Inr orders \<Rightarrow>
             (case import_loop (order_envs env) 0 integrationId orders
                     \<lparr> im_total = int (length orders), im_imported = 0, im_skipped = 0,
                       im_failed = 0, im_errors = [] \<rparr> w1 of
                (results, w2) \<Rightarrow>
                  (case integrationService_updateSyncLog (close_log_failed env) (sl_id syncLog)
                          (\<lambda>l. l\<lparr> sl_status := run_status (im_failed results) (im_imported results),
                                   sl_records_processed := im_imported results + im_skipped results,
                                   sl_records_failed := im_failed results,
                                   sl_completed_at := Some (clock env),
                                   sl_details := Some (ImportRun results),
                                   sl_error_details :=
                                     (if im_errors results \<noteq> [] then Some (ErrorList (im_errors results))
                                      else sl_error_details l) \<rparr>) w2 of
                     (Inl e, w3) \<Rightarrow> (Inl e, w3)
                   | (Inr _, w3) \<Rightarrow>
                       (case updateIntegration (close_integration_failed env) integrationId
                               (\<lambda>i. i\<lparr> i_last_sync_at := Some (clock env),
                                        i_sync_status := ''CONNECTED'' \<rparr>) w3 of
                          (Inl e, w4) \<Rightarrow> (Inl e, w4)
                        | (Inr _, w4) \<Rightarrow> (Inr results, w4)))))"

definition importOrdersFromWooCommerce ::
  "run_env \<Rightarrow> string \<Rightarrow> ImportOptions \<Rightarrow> world \<Rightarrow> (string + ImportResults) \<times> world" where
  "importOrdersFromWooCommerce env integrationId options w =
     (case getIntegration (get_integration_failed env) integrationId w of
        Inl e \<Rightarrow> (Inl e, w)
      | Inr None \<Rightarrow> (Inl ''Integration not found'', w)
      | Inr (Some integration) \<Rightarrow>
          if i_platform_type integration \<noteq> ''WOOCOMMERCE''
          then (Inl ''Integration is not a WooCommerce integration'', w)
          else
            (case new_WooCommerceClient (i_config integration) of
               Inl e \<Rightarrow> (Inl e, w)
             | Inr _ \<Rightarrow>
                 (case integrationService_createSyncLog (sync_log_insert env) integrationId
                         ''ORDER_IMPORT'' ''INBOUND'' (clock env) w of
                    (Inl e, w1) \<Rightarrow> (Inl e, w1)
                  | (Inr syncLog, w1) \<Rightarrow>
                      (case import_run env integrationId options syncLog w1 of
                         (Inr results, w2) \<Rightarrow> (Inr results, w2)
                       | (Inl e, w2) \<Rightarrow>
                           (case run_failed env (sl_id syncLog) integrationId e w2 of
                              (thrown, w3) \<Rightarrow> (Inl thrown, w3))))))"

definition processWebhookOrder ::
  "run_env \<Rightarrow> string \<Rightarrow> WooCommerceOrder \<Rightarrow> world \<Rightarrow> (string + ImportOrderResult) \<times> world" where
  "processWebhookOrder env integrationId wooOrder w =
     (case integrationService_createSyncLog (sync_log_insert env) integrationId
             ''WEBHOOK'' ''INBOUND'' (clock env) w of
        (Inl e, w1) \<Rightarrow> (Inl e, w1)
      | (Inr syncLog, w1) \<Rightarrow>
          (case importOrder (order_envs env 0) wooOrder integrationId w1 of
             (result, w2) \<Rightarrow>
               (case integrationService_updateSyncLog (close_log_failed env) (sl_id syncLog)
                       (\<lambda>l. l\<lparr> sl_status := (if ir_success result then ''SUCCESS'' else ''FAILED''),
                                sl_records_processed := (if ir_success result then 1 else 0),
                                sl_records_failed := (if ir_success result then 0 else 1),
                                sl_completed_at := Some (clock env),
                                sl_details := Some (WebhookOrder result),
                                sl_error_details :=
                                  (if truthy (ir_error result) then Some (ErrorMessage (the (ir_error result)))
                                   else sl_error_details l) \<rparr>) w2 of
                  (Inr _, w3) \<Rightarrow> (Inr result, w3)
                | (Inl e, w3) \<Rightarrow>
                    (case integrationService_updateSyncLog (fail_log_failed env) (sl_id syncLog)
                            (\<lambda>l. l\<lparr> sl_status := ''FAILED'', sl_records_failed := 1,
                                     sl_completed_at := Some (clock env),
                                     sl_error_details := Some (ErrorMessage e) \<rparr>) w3 of
                       (Inl e1, w4) \<Rightarrow> (Inl e1, w4)
                     | (Inr _, w4) \<Rightarrow> (Inl e, w4)))))"

section \<open>Inventory export (inventory-sync.service.ts)\<close>

text \<open>
  The quantity to push for one mapping. \<open>null\<close> (here \<open>None\<close>) is returned when the
  query fails, and when no branch applies: a \<open>CIGAR\<close> mapping with no variation id, or
  a product type that is none of the three. A product with no row in its table has
  \<open>null\<close> data, of which \<open>data?.available ?? 0\<close> makes the quantity 0.
\<close>

definition getWarehouseInventory ::
  "bool \<Rightarrow> string \<Rightarrow> string \<Rightarrow> string option \<Rightarrow> world \<Rightarrow> int option" where
  "getWarehouseInventory failed productId productType variationId w =
     (if productType = ''CIGAR'' \<and> truthy variationId
      then (case maybeSingle failed
                   (filter (\<lambda>r. ci_product_id r = productId \<and> Some (ci_variation_id r) = variationId)
                      (inventory_cigars w)) of
              None \<Rightarrow> None
            | Some d \<Rightarrow> Some (case d of None \<Rightarrow> 0
                                | Some r \<Rightarrow> (case ci_available r of None \<Rightarrow> 0 | Some n \<Rightarrow> n)))
      else if productType = ''BUNDLE''
      then (case maybeSingle failed (filter (\<lambda>r. st_id r = productId) (bundles w)) of
              None \<Rightarrow> None
            | Some d \<Rightarrow> Some (case d of None \<Rightarrow> 0
                                | Some r \<Rightarrow> (case st_stock_quantity r of None \<Rightarrow> 0 | Some n \<Rightarrow> n)))
      else if productType = ''ACCESSORY''
      then (case maybeSingle failed (filter (\<lambda>r. st_id r = productId) (accessories w)) of
              None \<Rightarrow> None
            | Some d \<Rightarrow> Some (case d of None \<Rightarrow> 0
                                | Some r \<Rightarrow> (case st_stock_quantity r of None \<Rightarrow> 0 | Some n \<Rightarrow> n)))
      else None)"

text \<open>
  The update of \<open>last_synced_at\<close> of a synced mapping; its outcome is not looked at.
\<close>

definition touch_mapping :: "string \<Rightarrow> string \<Rightarrow> world \<Rightarrow> world" where
  "touch_mapping stamp mid w =
     w\<lparr> product_mappings :=
           map (\<lambda>m. if pm_id m = mid then m\<lparr> pm_last_synced_at := Some stamp \<rparr> else m)
             (product_mappings w) \<rparr>"

text \<open>
  The loop over the mappings, each in its own \<open>try\<close>. The external ids are read with
  \<open>parseInt\<close>; a variation id that is \<open>null\<close>, \<open>NaN\<close> or 0 sends the product to the batch.
\<close>

fun inventory_loop ::
  "(nat \<Rightarrow> mapping_env) \<Rightarrow> string \<Rightarrow> nat \<Rightarrow> ProductMapping list \<Rightarrow> (int option \<times> int) list
     \<Rightarrow> InventorySyncResult \<Rightarrow> world \<Rightarrow> (int option \<times> int) list \<times> InventorySyncResult \<times> world" where
  "inventory_loop envs stamp i [] updates results w = (updates, results, w)"
| "inventory_loop envs stamp i (mapping # rest) updates results w =
     (case getWarehouseInventory (inventory_query_failed (envs i)) (pm_warehouse_product_id mapping)
             (pm_warehouse_product_type mapping) (pm_warehouse_variation_id mapping) w of
        None \<Rightarrow>
          inventory_loop envs stamp (Suc i) rest updates
            (results\<lparr> is_skipped := is_skipped results + 1,
                      is_errors := is_errors results
                        @ [''Product '' @ pm_warehouse_product_id mapping @ '' not found in warehouse''] \<rparr>)
            w
      | Some inventory \<Rightarrow>
          (let productId = parseInt (Some (pm_external_product_id mapping));
               variationId = (if truthy (pm_external_variation_id mapping)
                              then parseInt (pm_external_variation_id mapping) else None)
           in if (case variationId of None \<Rightarrow> False | Some v \<Rightarrow> v \<noteq> 0)
              then
                (let w1 = w\<lparr> calls := calls w
                            @ [WooUpdateProductVariationStock productId (the variationId) inventory] \<rparr>
                 in case request (variation_response (envs i)) of
                      Inl e \<Rightarrow>
                        inventory_loop envs stamp (Suc i) rest updates
                          (results\<lparr> is_failed := is_failed results + 1,
                                    is_errors := is_errors results
                                      @ [''Mapping '' @ pm_id mapping @ '': '' @ e] \<rparr>)
                          w1
                    | Inr _ \<Rightarrow>
                        inventory_loop envs stamp (Suc i) rest updates
                          (results\<lparr> is_synced := is_synced results + 1 \<rparr>)
                          (touch_mapping stamp (pm_id mapping) w1))
              else
                inventory_loop envs stamp (Suc i) rest (updates @ [(productId, inventory)])
                  (results\<lparr> is_synced := is_synced results + 1 \<rparr>)
                  (touch_mapping stamp (pm_id mapping) w)))"

text \<open>
  The mappings of a run: those with the inventory toggle on and, when the caller names
  products, those of the named products.
\<close>

definition selected_mappings :: "string list option \<Rightarrow> ProductMapping list \<Rightarrow> ProductMapping list" where
  "selected_mappings warehouseProductIds all_mappings =
     (let enabled = filter pm_sync_inventory all_mappings
      in case warehouseProductIds of
           None \<Rightarrow> enabled
         | Some ids \<Rightarrow>
             if ids \<noteq> [] then filter (\<lambda>m. pm_warehouse_product_id m \<in> set ids) enabled
             else enabled)"

text \<open>The body of the \<open>try\<close> block of \<open>syncInventoryToWooCommerce\<close>.\<close>

definition inventory_run ::
  "run_env \<Rightarrow> string \<Rightarrow> string list option \<Rightarrow> SyncLog \<Rightarrow> world
     \<Rightarrow> (string + InventorySyncResult) \<times> world" where
  "inventory_run env integrationId warehouseProductIds syncLog w =
     (case getProductMappings (get_mappings_failed env) integrationId w of
        Inl e \<Rightarrow> (Inl e, w)
      | Inr all_mappings \<Rightarrow>
          (let mappings = selected_mappings warehouseProductIds all_mappings
           in case inventory_loop (mapping_envs env) (clock env) 0 mappings []
                     \<lparr> is_total = int (length mappings), is_synced = 0, is_skipped = 0,
                       is_failed = 0, is_errors = [] \<rparr> w of
                (updates, looped, w1) \<Rightarrow>
                  (let batched = (updates \<noteq> []);
                       w2 = (if batched then w1\<lparr> calls := calls w1 @ [WooBatchUpdateProducts updates] \<rparr>
                             else w1);
                       results = (if batched
                                  then (case request (batch_response env) of
                                          Inl e \<Rightarrow> looped\<lparr> is_errors := is_errors looped
                                                      @ [''Batch update failed: '' @ e] \<rparr>
                                        | Inr _ \<Rightarrow> looped)
                                  else looped)
                   in case integrationService_updateSyncLog (close_log_failed env) (sl_id syncLog)
                             (\<lambda>l. l\<lparr> sl_status := run_status (is_failed results) (is_synced results),
                                      sl_records_processed := is_synced results + is_skipped results,
                                      sl_records_failed := is_failed results,
                                      sl_completed_at := Some (clock env),
                                      sl_details := Some (InventoryRun results),
                                      sl_error_details :=
                                        (if is_errors results \<noteq> [] then Some (ErrorList (is_errors results))
                                         else sl_error_details l) \<rparr>) w2 of
                        (Inl e, w3) \<Rightarrow> (Inl e, w3)
                      | (Inr _, w3) \<Rightarrow>
                          (case updateIntegration (close_integration_failed env) integrationId
                                  (\<lambda>i. i\<lparr> i_last_sync_at := Some (clock env),
                                           i_sync_status := ''CONNECTED'' \<rparr>) w3 of
                             (Inl e, w4) \<Rightarrow> (Inl e, w4)
                           | (Inr _, w4) \<Rightarrow> (Inr results, w4)))))"

definition syncInventoryToWooCommerce ::
  "run_env \<Rightarrow> string \<Rightarrow> string list option \<Rightarrow> world \<Rightarrow> (string + InventorySyncResult) \<times> world" where
  "syncInventoryToWooCommerce env integrationId warehouseProductIds w =
     (case getIntegration (get_integration_failed env) integrationId w of
        Inl e \<Rightarrow> (Inl e, w)
      | Inr None \<Rightarrow> (Inl ''Integration not found'', w)
      | Inr (Some integration) \<Rightarrow>
          if i_platform_type integration \<noteq> ''WOOCOMMERCE''
          then (Inl ''Integration is not a WooCommerce integration'', w)
          else
            (case new_WooCommerceClient (i_config integration) of
               Inl e \<Rightarrow> (Inl e, w)
             | Inr _ \<Rightarrow>
                 (case integrationService_createSyncLog (sync_log_insert env) integrationId
                         ''INVENTORY_EXPORT'' ''OUTBOUND'' (clock env) w of
                    (Inl e, w1) \<Rightarrow> (Inl e, w1)
                  | (Inr syncLog, w1) \<Rightarrow>
                      (case inventory_run env integrationId warehouseProductIds syncLog w1 of
                         (Inr results, w2) \<Rightarrow> (Inr results, w2)
                       | (Inl e, w2) \<Rightarrow>
                           (case run_failed env (sl_id syncLog) integrationId e w2 of
                              (thrown, w3) \<Rightarrow> (Inl thrown, w3))))))"

section \<open>Webhook intake (webhooks.routes.ts)\<close>

record WebhookRequest =
  wr_integrationId :: string
  wr_signature :: "string option"
  wr_topic :: "string option"
  wr_event :: "string option"
  wr_body :: string
  wr_payload :: WooCommerceOrder

text \<open>
  \<open>verifyWebhookSignature\<close> compares the keyed hash of the payload text with the
  signature received; the keyed hash is the same parameter as in the signer.
\<close>

definition verifyWebhookSignature ::
  "(string \<Rightarrow> string \<Rightarrow> string) \<Rightarrow> string \<Rightarrow> string \<Rightarrow> string \<Rightarrow> bool" where
  "verifyWebhookSignature hmac_sha256_base64 payload signature secret =
     (hmac_sha256_base64 secret payload = signature)"

text \<open>
  The handler of \<open>POST /woocommerce/:integrationId\<close>: the status of the response and the
  world after it. \<open>wr_body\<close> is \<open>JSON.stringify\<close> of the parsed body. An exception of the
  handler is answered with 500; an exception of the order import is only printed.
\<close>

definition post_woocommerce_webhook ::
  "(string \<Rightarrow> string \<Rightarrow> string) \<Rightarrow> run_env \<Rightarrow> WebhookRequest \<Rightarrow> world \<Rightarrow> nat \<times> world" where
  "post_woocommerce_webhook hmac_sha256_base64 env req w =
     (case getIntegration (get_integration_failed env) (wr_integrationId req) w of
        Inl e \<Rightarrow> (500, w)
      | Inr None \<Rightarrow> (404, w)
      | Inr (Some integration) \<Rightarrow>
          if \<not> i_is_active integration then (400, w)
          else
            (case i_config integration of
               None \<Rightarrow> (500, w)
             | Some config \<Rightarrow>
                 if truthy (webhookSecret config) \<and> truthy (wr_signature req)
                    \<and> \<not> verifyWebhookSignature hmac_sha256_base64 (wr_body req)
                          (the (wr_signature req)) (the (webhookSecret config))
                 then (401, w)
                 else
                   (case queueWebhook (queue_insert_failed env) (wr_integrationId req)
                           (if truthy (wr_topic req) then the (wr_topic req)
                            else if truthy (wr_event req) then the (wr_event req)
                            else ''unknown'')
                           (wr_signature req) w of
                      (Inl e, w1) \<Rightarrow> (500, w1)
                    | (Inr _, w1) \<Rightarrow>
                        if wr_topic req = Some ''order.created'' \<or> wr_topic req = Some ''order.updated''
                        then (200, snd (processWebhookOrder env (wr_integrationId req) (wr_payload req) w1))
                        else (200, w1))))"

section \<open>The boundary of a run\<close>


section \<open>Example data\<close>

definition kubacco_integration :: Integration where
  "kubacco_integration =
     \<lparr> i_id = ''int-kub'', i_platform_type = ''KUBACCO_APP'', i_is_active = True,
       i_config = Some \<lparr> apiKey = Some ''key'', webhookSecret = None \<rparr>,
       i_sync_status = ''CONNECTED'', i_error_message = None, i_last_sync_at = None \<rparr>"

definition woo_integration :: Integration where
  "woo_integration =
     \<lparr> i_id = ''int-woo'', i_platform_type = ''WOOCOMMERCE'', i_is_active = True,
       i_config = Some \<lparr> apiKey = None, webhookSecret = Some ''s3cret'' \<rparr>,
       i_sync_status = ''CONNECTED'', i_error_message = None, i_last_sync_at = None \<rparr>"

definition wholesale_order :: Order where
  "wholesale_order =
     \<lparr> o_id = ''o1'', o_order_code = ''WS-1'', o_channel = ''WHOLESALE'', o_status = ''PROCESSING'',
       o_receiver = ''Ada'', o_address = ''1 Main St'', o_city = ''Turin'',
       o_external_order_id = Some ''K-1'', o_integration_id = Some ''int-kub'' \<rparr>"

definition misrouted_order :: Order where
  "misrouted_order =
     \<lparr> o_id = ''o2'', o_order_code = ''WS-2'', o_channel = ''WHOLESALE'', o_status = ''PROCESSING'',
       o_receiver = ''Bob'', o_address = ''2 Main St'', o_city = ''Turin'',
       o_external_order_id = Some ''17'', o_integration_id = Some ''int-woo'' \<rparr>"

definition pushed_log :: OutboundSyncLog where
  "pushed_log =
     \<lparr> l_id = ''log-1'', l_order_id = ''o1'', l_integration_id = ''int-kub'',
       l_platform_type = ''KUBACCO_APP'', l_channel = ''WHOLESALE'',
       l_old_status = ''PROCESSING'', l_new_status = ''SHIPPED'', l_result = ''SUCCESS'',
       l_error_message = None, l_retry_count = 0, l_last_retry_at = None,
       l_synced_at = Some ''t0'' \<rparr>"

definition example_world :: world where
  "example_world =
     \<lparr> ops_orders = [wholesale_order, misrouted_order], ops_order_items = [],
       integrations = [woo_integration, kubacco_integration],
       integration_outbound_sync_logs = [pushed_log], integration_sync_logs = [],
       product_mappings = [], inventory_cigars = [], bundles = [], accessories = [],
       webhook_queue = [], calls = [] \<rparr>"




definition quiet_env :: sync_env where
  "quiet_env =
     \<lparr> now = ''t1'', log_query_failed = False, order_query_failed = False,
       integration_query_failed = False, kubacco_fetch = FetchResponse 200 None,
       success_insert = Some ''log-new'', failure_insert = Some ''log-fail'',
       reread_failed = False, update_failed = False \<rparr>"

definition down_env :: sync_env where
  "down_env = quiet_env \<lparr> kubacco_fetch := FetchResponse 500 None \<rparr>"


definition failed_world :: world where
  "failed_world = snd (syncStatusToExternalPlatform quiet_env ''o9'' ''SHIPPED'' None example_world)"


definition storefront_order :: WooCommerceOrder where
  "storefront_order =
     \<lparr> wo_id = 42, wo_order_key = ''wc_order_a1'', wo_status = ''processing'',
       wo_billing = \<lparr> a_first_name = ''Ada'', a_last_name = ''Byron'', a_address_1 = ''1 Main St'',
                      a_city = ''Turin'' \<rparr>,
       wo_shipping = \<lparr> a_first_name = ''Ada'', a_last_name = ''Byron'', a_address_1 = [],
                       a_city = [] \<rparr>,
       wo_line_items = [\<lparr> li_name = ''Robusto'', li_product_id = 101, li_variation_id = 0,
                          li_quantity = 2, li_sku = ''ROB-1'' \<rparr>] \<rparr>"

definition accepting_env :: import_env where
  "accepting_env =
     \<lparr> exists_query_failed = False, order_insert = Inr ''ord-new'', items_insert_failed = False \<rparr>"

text \<open>An import during which the existence query fails and the insert is accepted.\<close>

definition blind_env :: import_env where
  "blind_env =
     \<lparr> exists_query_failed = True, order_insert = Inr ''ord-dup'', items_insert_failed = False \<rparr>"

definition blind_second :: "nat \<Rightarrow> import_env" where
  "blind_second i = (if i = 0 then accepting_env else blind_env)"

definition quiet_run :: run_env where
  "quiet_run =
     \<lparr> clock = ''t2'', get_integration_failed = None, sync_log_insert = Inr ''run-1'',
       orders_response = Responded [storefront_order],
       order_envs = (\<lambda>i. accepting_env), get_mappings_failed = None,
       mapping_envs = (\<lambda>i. \<lparr> inventory_query_failed = False, variation_response = Responded () \<rparr>),
       batch_response = Responded (), close_log_failed = None, close_integration_failed = None,
       fail_log_failed = None, fail_integration_failed = None, queue_insert_failed = None \<rparr>"

definition offline_run :: run_env where
  "offline_run = quiet_run \<lparr> orders_response := NetworkFailure ''connect ECONNREFUSED'',
                            get_mappings_failed := Some ''connection terminated'' \<rparr>"

definition mapping_zero :: ProductMapping where
  "mapping_zero =
     \<lparr> pm_id = ''m1'', pm_integration_id = ''int-woo'', pm_warehouse_product_id = ''b1'',
       pm_warehouse_product_type = ''BUNDLE'', pm_warehouse_variation_id = None,
       pm_external_product_id = ''101'', pm_external_variation_id = None,
       pm_sync_inventory = True, pm_last_synced_at = None \<rparr>"

definition mapping_absent :: ProductMapping where
  "mapping_absent =
     \<lparr> pm_id = ''m2'', pm_integration_id = ''int-woo'', pm_warehouse_product_id = ''b404'',
       pm_warehouse_product_type = ''BUNDLE'', pm_warehouse_variation_id = None,
       pm_external_product_id = ''102'', pm_external_variation_id = None,
       pm_sync_inventory = True, pm_last_synced_at = None \<rparr>"

definition mapping_unresolved :: ProductMapping where
  "mapping_unresolved =
     \<lparr> pm_id = ''m3'', pm_integration_id = ''int-woo'', pm_warehouse_product_id = ''c7'',
       pm_warehouse_product_type = ''CIGAR'', pm_warehouse_variation_id = None,
       pm_external_product_id = ''103'', pm_external_variation_id = None,
       pm_sync_inventory = True, pm_last_synced_at = None \<rparr>"

definition absent_world :: world where
  "absent_world =
     example_world \<lparr> product_mappings := [mapping_zero, mapping_absent],
                     bundles := [\<lparr> st_id = ''b1'', st_stock_quantity = Some 0 \<rparr>] \<rparr>"

definition unresolved_world :: world where
  "unresolved_world =
     example_world \<lparr> product_mappings := [mapping_zero, mapping_unresolved],
                     bundles := [\<lparr> st_id = ''b1'', st_stock_quantity = Some 0 \<rparr>] \<rparr>"


definition unsigned_request :: WebhookRequest where
  "unsigned_request =
     \<lparr> wr_integrationId = ''int-woo'', wr_signature = None, wr_topic = Some ''order.created'',
       wr_event = None, wr_body = ''{id:42}'', wr_payload = storefront_order \<rparr>"

text \<open>A stand-in for the keyed hash that shows the key and the text it was given.\<close>

definition transparent_hash :: "string \<Rightarrow> string \<Rightarrow> string" where
  "transparent_hash key text = key @ ''|'' @ text"

definition oauth_params :: "(string \<times> string) list" where
  "oauth_params =
     [(''oauth_consumer_key'', ''ck_1''), (''oauth_nonce'', ''ab''),
      (''after'', ''2024-01-01T00:00:00'')]"

section \<open>Properties of the status synchronisation\<close>

lemmas example_defs = example_world_def wholesale_order_def misrouted_order_def pushed_log_def
  woo_integration_def kubacco_integration_def quiet_env_def down_env_def

lemmas sync_defs = syncStatusToExternalPlatform_def sync_attempt_def select_order_def
  select_integration_def select_sync_log_def maybeSingle_def data_of_def
  validateChannelSegregation_def validCombinations_def createSyncLog_def
  syncToWooCommerce_def syncToKubacco_def retrySyncLog_def retry_attempt_def
  update_sync_log_def truthy_def response_ok_def mapToKubaccoStatus_def
  mapToWooCommerceStatus_def show_undefined_def show_nullable_def request_def


lemma createSyncLog_calls: "calls (snd (createSyncLog i d w)) = calls w"
  by (simp add: createSyncLog_def Let_def split: option.splits)

lemma maybeSingle_found: "maybeSingle failed rows = Some (Some r) \<Longrightarrow> rows = [r] \<and> \<not> failed"
  by (cases failed; cases rows) (simp_all add: maybeSingle_def split: list.splits)

lemma select_sync_log_found:
  assumes "select_sync_log failed lid w = Some (Some l)"
  shows "l \<in> set (integration_outbound_sync_logs w) \<and> l_id l = lid"
proof -
  have "filter (\<lambda>l. l_id l = lid) (integration_outbound_sync_logs w) = [l]"
    using maybeSingle_found [OF assms [unfolded select_sync_log_def]] by simp
  then have "l \<in> set (filter (\<lambda>l. l_id l = lid) (integration_outbound_sync_logs w))" by simp
  then show ?thesis by simp
qed

subsection \<open>Channel segregation\<close>

text \<open>
  Claim C1. When the order's channel does not map to the platform type of its
  integration under the fixed table (\<open>WHOLESALE\<close> to \<open>KUBACCO_APP\<close>, \<open>ONLINE\<close> to
  \<open>WOOCOMMERCE\<close>), \<open>syncStatusToExternalPlatform\<close> fails with the segregation error:
  no request leaves for a platform, and the log table gains nothing but, when the
  datastore accepts it, one row with result \<open>FAILED\<close>.
\<close>

theorem channel_segregation_enforced:
  assumes ord: "select_order (order_query_failed env) oid w = Some (Some order)"
    and int: "select_integration (integration_query_failed env) (o_integration_id order) w = Some (Some integration)"
    and mismatch: "validCombinations (o_channel order) \<noteq> Some (i_platform_type integration)"
  shows "\<not> r_success (fst (syncStatusToExternalPlatform env oid newStatus client w))
       \<and> r_error (fst (syncStatusToExternalPlatform env oid newStatus client w))
           = Some (''Channel segregation violation: '' @ o_channel order @ '' orders cannot sync to ''
                   @ i_platform_type integration @ ''. Expected: ''
                   @ show_undefined (validCombinations (o_channel order)))
       \<and> calls (snd (syncStatusToExternalPlatform env oid newStatus client w)) = calls w
       \<and> (integration_outbound_sync_logs (snd (syncStatusToExternalPlatform env oid newStatus client w))
             = integration_outbound_sync_logs w
          \<or> (\<exists>row. integration_outbound_sync_logs (snd (syncStatusToExternalPlatform env oid newStatus client w))
                      = integration_outbound_sync_logs w @ [row]
                    \<and> l_result row = ''FAILED''))"
proof -
  let ?e = "''Channel segregation violation: '' @ o_channel order @ '' orders cannot sync to ''
                   @ i_platform_type integration @ ''. Expected: ''
                   @ show_undefined (validCombinations (o_channel order))"
  have e: "validateChannelSegregation (o_channel order) (i_platform_type integration) = Inl ?e"
    using mismatch by (auto simp: validateChannelSegregation_def Let_def)
  have att: "sync_attempt env oid newStatus client w = (Inl ?e, w)"
    by (simp add: sync_attempt_def ord int e)
  show ?thesis
    by (simp add: syncStatusToExternalPlatform_def att createSyncLog_def Let_def split: option.splits)
qed

text \<open>
  The theorem at a wholesale order attached to a storefront integration, with a
  storefront client that would have answered.
\<close>

theorem channel_segregation_enforced_witness:
  "select_order (order_query_failed quiet_env) ''o2'' example_world = Some (Some misrouted_order)
   \<and> select_integration (integration_query_failed quiet_env) (o_integration_id misrouted_order) example_world
       = Some (Some woo_integration)
   \<and> validCombinations (o_channel misrouted_order) \<noteq> Some (i_platform_type woo_integration)
   \<and> \<not> r_success (fst (syncStatusToExternalPlatform quiet_env ''o2'' ''SHIPPED'' (Some (Responded ())) example_world))
   \<and> calls (snd (syncStatusToExternalPlatform quiet_env ''o2'' ''SHIPPED'' (Some (Responded ())) example_world)) = []"
proof -
  have a: "select_order (order_query_failed quiet_env) ''o2'' example_world = Some (Some misrouted_order)"
    by (simp add: select_order_def maybeSingle_def example_defs)
  have b: "select_integration (integration_query_failed quiet_env) (o_integration_id misrouted_order) example_world
       = Some (Some woo_integration)"
    by (simp add: select_integration_def maybeSingle_def example_defs)
  have c: "validCombinations (o_channel misrouted_order) \<noteq> Some (i_platform_type woo_integration)"
    by (simp add: validCombinations_def example_defs)
  have d: "calls example_world = []" by (simp add: example_world_def)
  show ?thesis
    using channel_segregation_enforced [OF a b c, of "''SHIPPED''" "Some (Responded ())"] a b c d
    by simp
qed

(* C4 *)

subsection \<open>The row written on failure\<close>

text \<open>Whenever the \<open>try\<close> block raises, the caller gets a failure result with the message.\<close>

lemma sync_failure_is_returned:
  assumes "fst (sync_attempt env oid newStatus client w) = Inl e"
  shows "\<not> r_success (fst (syncStatusToExternalPlatform env oid newStatus client w))
       \<and> r_error (fst (syncStatusToExternalPlatform env oid newStatus client w)) = Some e"
proof -
  obtain w1 where att: "sync_attempt env oid newStatus client w = (Inl e, w1)"
    using assms by (cases "sync_attempt env oid newStatus client w") auto
  show ?thesis
    by (simp add: syncStatusToExternalPlatform_def att split: prod.splits)
qed

text \<open>
  Claim C4 says that the failure row carries \<open>UNKNOWN\<close> only when the lookup of the
  order or of the integration failed, and the actual platform type and channel
  otherwise. Here both lookups succeed, the integration is a storefront and the order
  is wholesale, and the row still carries \<open>UNKNOWN\<close> and an empty channel.
\<close>

theorem failed_row_hides_known_platform:
  "select_order False ''o2'' example_world = Some (Some misrouted_order)
   \<and> select_integration False (o_integration_id misrouted_order) example_world = Some (Some woo_integration)
   \<and> integration_outbound_sync_logs
        (snd (syncStatusToExternalPlatform quiet_env ''o2'' ''SHIPPED'' None example_world))
      = [pushed_log,
         \<lparr> l_id = ''log-fail'', l_order_id = ''o2'', l_integration_id = [],
           l_platform_type = ''UNKNOWN'', l_channel = [], l_old_status = [],
           l_new_status = ''SHIPPED'', l_result = ''FAILED'',
           l_error_message = Some ''Channel segregation violation: WHOLESALE orders cannot sync to WOOCOMMERCE. Expected: KUBACCO_APP'',
           l_retry_count = 0, l_last_retry_at = None, l_synced_at = None \<rparr>]
   \<and> i_platform_type woo_integration = ''WOOCOMMERCE'' \<and> o_channel misrouted_order = ''WHOLESALE''"
  by (simp add: sync_defs example_defs Let_def)

text \<open>
  Claim C4 as amended. Whenever the \<open>try\<close> block raises, the service returns a failure
  result carrying the message and the platform type \<open>UNKNOWN\<close>, and, when the datastore
  accepts the insert, appends one row with result \<open>FAILED\<close>, platform type \<open>UNKNOWN\<close>
  and empty integration id, channel and old status, whatever was looked up before.
\<close>

theorem failure_row_always_unknown:
  assumes raised: "fst (sync_attempt env oid newStatus client w) = Inl e"
    and stored: "failure_insert env = Some new_id"
  shows "fst (syncStatusToExternalPlatform env oid newStatus client w)
           = \<lparr> r_success = False, r_syncLogId = new_id, r_orderId = oid,
               r_platformType = ''UNKNOWN'', r_newStatus = newStatus, r_error = Some e \<rparr>
       \<and> integration_outbound_sync_logs (snd (syncStatusToExternalPlatform env oid newStatus client w))
           = integration_outbound_sync_logs (snd (sync_attempt env oid newStatus client w))
             @ [\<lparr> l_id = new_id, l_order_id = oid, l_integration_id = [],
                  l_platform_type = ''UNKNOWN'', l_channel = [], l_old_status = [],
                  l_new_status = newStatus, l_result = ''FAILED'', l_error_message = Some e,
                  l_retry_count = 0, l_last_retry_at = None, l_synced_at = None \<rparr>]"
proof -
  obtain w1 where att: "sync_attempt env oid newStatus client w = (Inl e, w1)"
    using raised by (cases "sync_attempt env oid newStatus client w") auto
  note returned = sync_failure_is_returned [OF raised]
  show ?thesis
    using returned
    by (simp add: syncStatusToExternalPlatform_def att createSyncLog_def stored Let_def)
qed

theorem failure_row_always_unknown_witness:
  "fst (sync_attempt quiet_env ''o2'' ''SHIPPED'' None example_world)
     = Inl ''Channel segregation violation: WHOLESALE orders cannot sync to WOOCOMMERCE. Expected: KUBACCO_APP''
   \<and> failure_insert quiet_env = Some ''log-fail''
   \<and> r_platformType (fst (syncStatusToExternalPlatform quiet_env ''o2'' ''SHIPPED'' None example_world)) = ''UNKNOWN''"
proof -
  have a: "fst (sync_attempt quiet_env ''o2'' ''SHIPPED'' None example_world)
     = Inl ''Channel segregation violation: WHOLESALE orders cannot sync to WOOCOMMERCE. Expected: KUBACCO_APP''"
    by (simp add: sync_defs example_defs Let_def)
  have b: "failure_insert quiet_env = Some ''log-fail''" by (simp add: quiet_env_def)
  show ?thesis using failure_row_always_unknown [OF a b] a b by simp
qed

subsection \<open>Failed rows and the retry entry point\<close>

lemma update_sync_log_calls: "calls (update_sync_log failed lid f w) = calls w"
  by (simp add: update_sync_log_def)

lemma retry_attempt_unknown:
  assumes "select_sync_log (log_query_failed env) lid w = Some (Some syncLog)"
    and "l_platform_type syncLog = ''UNKNOWN''"
  shows "\<exists>e. retry_attempt env lid client w = (Inl e, w)"
  by (simp add: retry_attempt_def assms split: option.splits)

lemma failed_rows_unknown_createSyncLog:
  assumes "failed_rows_unknown w"
    and "d_result d = ''FAILED'' \<longrightarrow> d_platformType d = ''UNKNOWN'' \<and> d_integrationId d = [] \<and> d_channel d = []"
  shows "failed_rows_unknown (snd (createSyncLog inserted d w))"
  using assms by (simp add: failed_rows_unknown_def createSyncLog_def Let_def split: option.splits)

lemma failed_rows_unknown_calls [simp]:
  "failed_rows_unknown (w\<lparr> calls := c \<rparr>) = failed_rows_unknown w"
  by (simp add: failed_rows_unknown_def)

lemma failed_rows_unknown_syncToWooCommerce:
  assumes "failed_rows_unknown w"
  shows "failed_rows_unknown (snd (syncToWooCommerce env order integration ns os client w))"
  using assms
  by (simp add: syncToWooCommerce_def createSyncLog_def failed_rows_unknown_def Let_def
           split: option.splits sum.splits)

lemma failed_rows_unknown_syncToKubacco:
  assumes "failed_rows_unknown w"
  shows "failed_rows_unknown (snd (syncToKubacco env order integration ns os w))"
  using assms
  by (simp add: syncToKubacco_def createSyncLog_def failed_rows_unknown_def Let_def
           split: option.splits sum.splits fetch_outcome.splits)

lemma failed_rows_unknown_update:
  assumes "failed_rows_unknown w"
    and "\<And>l. l_result (f l) = l_result l \<and> l_platform_type (f l) = l_platform_type l
            \<and> l_integration_id (f l) = l_integration_id l \<and> l_channel (f l) = l_channel l"
  shows "failed_rows_unknown (update_sync_log failed lid f w)"
  using assms by (auto simp: failed_rows_unknown_def update_sync_log_def)

lemma failed_rows_unknown_sync_attempt:
  assumes "failed_rows_unknown w"
  shows "failed_rows_unknown (snd (sync_attempt env oid ns client w))"
  using assms failed_rows_unknown_syncToWooCommerce failed_rows_unknown_syncToKubacco
  by (simp add: sync_attempt_def Let_def split: option.splits sum.splits)

lemma failed_rows_unknown_sync:
  assumes "failed_rows_unknown w"
  shows "failed_rows_unknown (snd (syncStatusToExternalPlatform env oid ns client w))"
proof (cases "sync_attempt env oid ns client w")
  case (Pair res w1)
  have w1: "failed_rows_unknown w1"
    using failed_rows_unknown_sync_attempt [OF assms, of env oid ns client] Pair by simp
  show ?thesis
  proof (cases res)
    case (Inl e)
    show ?thesis
      using w1
      by (simp add: syncStatusToExternalPlatform_def Pair Inl createSyncLog_def Let_def
            failed_rows_unknown_def split: option.splits)
  next
    case (Inr r)
    then show ?thesis using w1 by (simp add: syncStatusToExternalPlatform_def Pair)
  qed
qed

lemma failed_rows_unknown_retry_attempt:
  assumes "failed_rows_unknown w"
  shows "failed_rows_unknown (snd (retry_attempt env lid client w))"
proof -
  have u: "\<And>w0 g c. failed_rows_unknown w0 \<Longrightarrow>
      failed_rows_unknown (update_sync_log (update_failed env) lid
         (\<lambda>l. l\<lparr> l_retry_count := c, l_last_retry_at := Some (now env) \<rparr>) w0)"
    by (rule failed_rows_unknown_update) simp_all
  show ?thesis
    using assms u failed_rows_unknown_syncToWooCommerce failed_rows_unknown_syncToKubacco
    apply (simp add: retry_attempt_def split: option.splits sum.splits prod.splits)
    apply (intro allI impI conjI)
    apply (metis snd_conv)+
    done
qed

lemma failed_rows_unknown_retry:
  assumes "failed_rows_unknown w"
  shows "failed_rows_unknown (snd (retrySyncLog env lid client w))"
proof (cases "retry_attempt env lid client w")
  case (Pair res w1)
  have w1: "failed_rows_unknown w1"
    using failed_rows_unknown_retry_attempt [OF assms, of env lid client] Pair by simp
  show ?thesis
  proof (cases res)
    case (Inl e)
    have "\<And>c. failed_rows_unknown (update_sync_log (update_failed env) lid
         (\<lambda>l. l\<lparr> l_retry_count := c, l_last_retry_at := Some (now env),
                  l_error_message := Some e \<rparr>) w1)"
      by (rule failed_rows_unknown_update [OF w1]) simp
    then show ?thesis by (simp add: retrySyncLog_def Pair Inl Let_def)
  next
    case (Inr r)
    then show ?thesis using w1 by (simp add: retrySyncLog_def Pair)
  qed
qed

lemma retry_failed_row:
  assumes inv: "failed_rows_unknown w"
    and sel: "select_sync_log (log_query_failed env) lid w = Some (Some syncLog)"
    and failed: "l_result syncLog = ''FAILED''"
  shows "\<not> r_success (fst (retrySyncLog env lid client w))
       \<and> calls (snd (retrySyncLog env lid client w)) = calls w"
proof -
  have "syncLog \<in> set (integration_outbound_sync_logs w)"
    using select_sync_log_found [OF sel] by simp
  then have "l_platform_type syncLog = ''UNKNOWN''"
    using inv failed by (simp add: failed_rows_unknown_def)
  then obtain e where "retry_attempt env lid client w = (Inl e, w)"
    using retry_attempt_unknown [OF sel] by blast
  then show ?thesis
    by (simp add: retrySyncLog_def Let_def update_sync_log_calls)
qed

lemma failed_world_eq: "failed_world = example_world \<lparr> integration_outbound_sync_logs :=
    [pushed_log, \<lparr> l_id = ''log-fail'', l_order_id = ''o9'', l_integration_id = [],
           l_platform_type = ''UNKNOWN'', l_channel = [], l_old_status = [],
           l_new_status = ''SHIPPED'', l_result = ''FAILED'',
           l_error_message = Some ''Order not found: o9'',
           l_retry_count = 0, l_last_retry_at = None, l_synced_at = None \<rparr>] \<rparr>"
  by (simp add: failed_world_def sync_defs example_defs Let_def)

text \<open>
  Claim C10 says that a retry of a failed row always takes the unknown-platform branch.
  The row written for an order that does not exist is a failed row, and its retry stops
  earlier, at the lookup of the order.
\<close>

theorem failed_retry_stops_at_order_lookup:
  "l_result (last (integration_outbound_sync_logs failed_world)) = ''FAILED''
   \<and> l_id (last (integration_outbound_sync_logs failed_world)) = ''log-fail''
   \<and> r_error (fst (retrySyncLog quiet_env ''log-fail'' None failed_world)) = Some ''Order not found: o9''
   \<and> r_error (fst (retrySyncLog quiet_env ''log-fail'' None failed_world)) \<noteq> Some ''Unknown platform type: UNKNOWN''"
  by (simp add: failed_world_eq sync_defs example_defs Let_def)

text \<open>
  Claim C10 as amended. Every row written with result \<open>FAILED\<close> carries the platform
  type \<open>UNKNOWN\<close> and an empty integration id and channel: the property holds of the
  table after every status push and every retry when it held before, and of every row
  that \<open>getFailedSyncs\<close> offers for a retry. Hence the retry of
  a failed row always returns a failure result and sends no request to either platform,
  whichever check stops it (the ceiling, the lookup of the order or of the integration,
  or the unknown-platform branch).
\<close>

theorem failed_rows_never_retried:
  assumes inv: "failed_rows_unknown w"
  shows "failed_rows_unknown (snd (syncStatusToExternalPlatform env oid newStatus client w))
       \<and> failed_rows_unknown (snd (retrySyncLog env lid client w))
       \<and> (\<forall>l \<in> set (getFailedSyncs limit w). l_platform_type l = ''UNKNOWN'')
       \<and> (\<forall>syncLog. select_sync_log (log_query_failed env) lid w = Some (Some syncLog)
              \<and> l_result syncLog = ''FAILED''
            \<longrightarrow> \<not> r_success (fst (retrySyncLog env lid client w))
                \<and> calls (snd (retrySyncLog env lid client w)) = calls w)"
proof -
  have offered: "\<forall>l \<in> set (getFailedSyncs limit w). l_platform_type l = ''UNKNOWN''"
  proof
    fix l assume "l \<in> set (getFailedSyncs limit w)"
    then have "l \<in> set (filter (\<lambda>l. l_result l = ''FAILED'' \<and> l_retry_count l < 5)
                          (integration_outbound_sync_logs w))"
      unfolding getFailedSyncs_def by (rule in_set_takeD)
    then show "l_platform_type l = ''UNKNOWN''"
      using inv by (simp add: failed_rows_unknown_def)
  qed
  show ?thesis
    using failed_rows_unknown_sync [OF inv] failed_rows_unknown_retry [OF inv]
      retry_failed_row [OF inv] offered
    by blast
qed

theorem failed_rows_never_retried_witness:
  "failed_rows_unknown failed_world
   \<and> select_sync_log (log_query_failed quiet_env) ''log-fail'' failed_world
        = Some (Some (last (integration_outbound_sync_logs failed_world)))
   \<and> l_result (last (integration_outbound_sync_logs failed_world)) = ''FAILED''
   \<and> \<not> r_success (fst (retrySyncLog quiet_env ''log-fail'' None failed_world))
   \<and> calls (snd (retrySyncLog quiet_env ''log-fail'' None failed_world)) = []"
proof -
  have a: "failed_rows_unknown failed_world"
    by (simp add: failed_world_eq failed_rows_unknown_def example_defs)
  have b: "select_sync_log (log_query_failed quiet_env) ''log-fail'' failed_world
        = Some (Some (last (integration_outbound_sync_logs failed_world)))"
    by (simp add: failed_world_eq select_sync_log_def maybeSingle_def example_defs)
  have c: "l_result (last (integration_outbound_sync_logs failed_world)) = ''FAILED''"
    by (simp add: failed_world_eq)
  have d: "calls failed_world = []" by (simp add: failed_world_eq example_defs)
  show ?thesis
    using failed_rows_never_retried [OF a, of quiet_env "''o1''" "''SHIPPED''" None "''log-fail''"] a b c d
    by simp
qed

subsection \<open>The retry ceiling\<close>

text \<open>
  The guard itself: a row whose count has reached 5 is refused before any lookup of the
  order and before any request.
\<close>

lemma retry_ceiling_guard:
  assumes sel: "select_sync_log (log_query_failed env) lid w = Some (Some syncLog)"
    and ceiling: "l_retry_count syncLog \<ge> 5"
  shows "fst (retrySyncLog env lid client w)
           = \<lparr> r_success = False, r_syncLogId = lid, r_orderId = [], r_platformType = [],
               r_newStatus = [], r_error = Some ''Maximum retry attempts exceeded (5)'' \<rparr>
       \<and> calls (snd (retrySyncLog env lid client w)) = calls w"
  using ceiling
  by (simp add: retrySyncLog_def retry_attempt_def sel Let_def update_sync_log_calls)

lemma five_times: "(f ^^ 5) x = f (f (f (f (f x))))"
  by (simp add: numeral_eq_Suc)

lemma show_nat_500: "show_nat 500 = ''500''"
  by (simp add: show_nat.simps digit_char_def)

lemma down_first:
  "retrySyncLog down_env ''log-1'' None example_world =
     (\<lparr> r_success = False, r_syncLogId = ''log-1'', r_orderId = [], r_platformType = [],
        r_newStatus = [], r_error = Some ''Kubacco API error: 500 - Unknown error'' \<rparr>,
      example_world \<lparr> integration_outbound_sync_logs :=
          [pushed_log \<lparr> l_retry_count := 1, l_last_retry_at := Some ''t1'',
                        l_error_message := Some ''Kubacco API error: 500 - Unknown error'' \<rparr>],
        calls := [KubaccoUpdateOrderStatus ''key'' ''K-1'' ''completed''] \<rparr>)"
  by (simp add: sync_defs example_defs Let_def show_nat_500)

lemma down_again:
  "retrySyncLog down_env ''log-1'' None
     (example_world \<lparr> integration_outbound_sync_logs :=
          [pushed_log \<lparr> l_retry_count := 1, l_last_retry_at := Some ''t1'',
                        l_error_message := Some ''Kubacco API error: 500 - Unknown error'' \<rparr>],
        calls := cs \<rparr>) =
     (\<lparr> r_success = False, r_syncLogId = ''log-1'', r_orderId = [], r_platformType = [],
        r_newStatus = [], r_error = Some ''Kubacco API error: 500 - Unknown error'' \<rparr>,
      example_world \<lparr> integration_outbound_sync_logs :=
          [pushed_log \<lparr> l_retry_count := 1, l_last_retry_at := Some ''t1'',
                        l_error_message := Some ''Kubacco API error: 500 - Unknown error'' \<rparr>],
        calls := cs @ [KubaccoUpdateOrderStatus ''key'' ''K-1'' ''completed''] \<rparr>)"
  by (simp add: sync_defs example_defs Let_def show_nat_500)

text \<open>
  Claim C2 says that the sixth retry of a row is always refused before any request
  leaves. With the wholesale endpoint answering 500, the first failed retry sets the
  count to 1 and every later failed retry writes 1 again, so after five attempts the
  count is 1 and the sixth attempt sends a sixth request.
\<close>

theorem sixth_retry_not_rejected:
  "r_error (fst (retrySyncLog down_env ''log-1'' None
       (((\<lambda>w. snd (retrySyncLog down_env ''log-1'' None w)) ^^ 5) example_world)))
     = Some ''Kubacco API error: 500 - Unknown error''
   \<and> calls (snd (retrySyncLog down_env ''log-1'' None
       (((\<lambda>w. snd (retrySyncLog down_env ''log-1'' None w)) ^^ 5) example_world)))
     = replicate 6 (KubaccoUpdateOrderStatus ''key'' ''K-1'' ''completed'')
   \<and> map l_retry_count (integration_outbound_sync_logs
       (((\<lambda>w. snd (retrySyncLog down_env ''log-1'' None w)) ^^ 5) example_world)) = [1]"
  by (simp add: five_times down_first down_again numeral_eq_Suc)

subsection \<open>What a retry does to the log table\<close>















section \<open>Properties of the request signer\<close>

lemma encode_unreserved: "\<forall>c \<in> set s. is_unreserved c \<Longrightarrow> encodeURIComponent s = s"
  by (induction s) (simp_all add: encodeURIComponent_def encode_unit_def)

lemma sort_key_fst_distinct:
  assumes "distinct (map fst ps)"
  shows "sort_key fst ps = map (\<lambda>k. (k, the (map_of ps k))) (sort (map fst ps))"
proof -
  let ?xs = "sort_key fst ps"
  have d: "distinct (map fst ?xs)"
    using assms by (simp add: distinct_map)
  have "sorted (map fst ?xs)" by (rule sorted_sort_key)
  moreover have "sorted (sort (map fst ps))" by simp
  moreover have "set (map fst ?xs) = set (sort (map fst ps))" by simp
  moreover have "distinct (sort (map fst ps))" using assms by simp
  ultimately have keys: "map fst ?xs = sort (map fst ps)"
    using d sorted_distinct_set_unique by blast
  have "map ((\<lambda>k. (k, the (map_of ps k))) \<circ> fst) ?xs = ?xs"
  proof (rule map_idI)
    fix p assume "p \<in> set ?xs"
    then have "(fst p, snd p) \<in> set ps" by simp
    then have "map_of ps (fst p) = Some (snd p)" by (rule map_of_is_SomeI [OF assms])
    then show "((\<lambda>k. (k, the (map_of ps k))) \<circ> fst) p = p" by simp
  qed
  then show ?thesis by (simp add: keys [symmetric])
qed

text \<open>
  Claim C6 says that the entries are sorted by their encoded key. The client sorts the
  keys before it encodes them: for the keys \<open>" "\<close> and \<open>"!"\<close> the space comes first as
  written and last once encoded (\<open>%20\<close>), so the base string handed to the keyed hash is
  not the one the claim describes.
\<close>

theorem raw_key_order_differs_from_encoded_order:
  "signatureBaseString ''GET'' ''u'' [('' '', ''1''), (''!'', ''2'')] = ''GET&u&%2520%3D1%26!%3D2''
   \<and> spec_base_string ''GET'' ''u'' [('' '', ''1''), (''!'', ''2'')] = ''GET&u&!%3D2%26%2520%3D1''
   \<and> generateOAuthSignature transparent_hash ''s'' ''GET'' ''u'' [('' '', ''1''), (''!'', ''2'')]
       \<noteq> spec_signature transparent_hash ''s'' ''GET'' ''u'' [('' '', ''1''), (''!'', ''2'')]"
  by (simp add: generateOAuthSignature_def spec_signature_def signatureBaseString_def
        spec_base_string_def sortedParams_def spec_sorted_param_string_def param_value_def
        show_undefined_def encodeURIComponent_def encode_unit_def is_unreserved_def
        percent_byte_def hex_digit_def toUpperCase_def signingKey_def transparent_hash_def)

text \<open>
  Claim C6 as amended. For every method, URL and parameter set whose keys are made of
  unreserved characters only (as are all the keys the client ever passes: the
  \<open>oauth_\<close> parameters and \<open>status\<close>, \<open>page\<close>, \<open>per_page\<close>, \<open>after\<close>, \<open>before\<close>, \<open>sku\<close>),
  the signature is the keyed hash, under the key \<open>encode(consumer_secret) + "&"\<close>, of
  \<open>METHOD&encode(URL)&encode(sorted_param_string)\<close> with every key and value encoded and
  the entries sorted by encoded key.
\<close>

theorem signature_matches_spec_for_plain_keys:
  assumes dist: "distinct (map fst params)"
    and plain: "\<forall>key \<in> set (map fst params). \<forall>c \<in> set key. is_unreserved c"
  shows "generateOAuthSignature hmac_sha256_base64 consumerSecret method url params
         = spec_signature hmac_sha256_base64 consumerSecret method url params"
proof -
  let ?enc = "\<lambda>(k, v). (encodeURIComponent k, encodeURIComponent v)"
  let ?eps = "map ?enc params"
  have keys: "map fst ?eps = map fst params"
    using plain by (induction params) (auto simp: encode_unreserved)
  have d: "distinct (map fst ?eps)" using dist by (simp only: keys)
  have val: "\<And>k. k \<in> set (map fst params) \<Longrightarrow>
      the (map_of ?eps k) = encodeURIComponent (param_value params k)"
  proof -
    fix k assume k: "k \<in> set (map fst params)"
    then obtain v where v: "(k, v) \<in> set params" by auto
    then have m: "map_of params k = Some v" using dist by simp
    have "(encodeURIComponent k, encodeURIComponent v) \<in> set ?eps" using v by force
    moreover have "\<forall>c \<in> set k. is_unreserved c" using plain k by auto
    then have "encodeURIComponent k = k" by (rule encode_unreserved)
    ultimately have "map_of ?eps k = Some (encodeURIComponent v)" using d by simp
    then show "the (map_of ?eps k) = encodeURIComponent (param_value params k)"
      by (simp add: param_value_def m show_undefined_def)
  qed
  have "map (\<lambda>(k, v). k @ ''='' @ v) (sort_key fst ?eps)
        = map (\<lambda>key. encodeURIComponent key @ ''='' @ encodeURIComponent (param_value params key))
            (sort (map fst params))"
  proof -
    have "map (\<lambda>(k, v). k @ ''='' @ v) (sort_key fst ?eps)
          = map (\<lambda>k. k @ ''='' @ the (map_of ?eps k)) (sort (map fst params))"
      unfolding sort_key_fst_distinct [OF d] keys by (simp add: comp_def)
    also have "\<dots> = map (\<lambda>key. encodeURIComponent key @ ''='' @ encodeURIComponent (param_value params key))
            (sort (map fst params))"
    proof (rule map_cong [OF refl])
      fix k assume "k \<in> set (sort (map fst params))"
      then have k: "k \<in> set (map fst params)" by simp
      then have "\<forall>c \<in> set k. is_unreserved c" using plain by auto
      then have "encodeURIComponent k = k" by (rule encode_unreserved)
      then show "k @ ''='' @ the (map_of ?eps k)
            = encodeURIComponent k @ ''='' @ encodeURIComponent (param_value params k)"
        using val [OF k] by simp
    qed
    finally show ?thesis .
  qed
  then have "spec_sorted_param_string params = sortedParams params"
    by (simp add: spec_sorted_param_string_def sortedParams_def)
  then show ?thesis
    by (simp add: generateOAuthSignature_def spec_signature_def signingKey_def
          signatureBaseString_def spec_base_string_def)
qed

theorem signature_matches_spec_for_plain_keys_witness:
  "distinct (map fst oauth_params)
   \<and> list_all (list_all is_unreserved) (map fst oauth_params)
   \<and> generateOAuthSignature transparent_hash ''cs_1'' ''get'' ''https://x.y/wp-json/wc/v3/orders''
         oauth_params
       = spec_signature transparent_hash ''cs_1'' ''get'' ''https://x.y/wp-json/wc/v3/orders''
         oauth_params"
proof -
  have a: "distinct (map fst oauth_params)"
    by (simp add: oauth_params_def)
  have b: "list_all (list_all is_unreserved) (map fst oauth_params)"
    by (simp add: oauth_params_def is_unreserved_def)
  then have c: "\<forall>key \<in> set (map fst oauth_params). \<forall>c \<in> set key. is_unreserved c"
    by (auto simp: list_all_iff)
  show ?thesis
    using signature_matches_spec_for_plain_keys [OF a c] a b by blast
qed


section \<open>Properties of the order import\<close>

lemmas run_defs = syncInventoryToWooCommerce_def inventory_run_def getIntegration_def single_def
  new_WooCommerceClient_def integrationService_createSyncLog_def getProductMappings_def
  selected_mappings_def getWarehouseInventory_def maybeSingle_def truthy_def request_def
  integrationService_updateSyncLog_def updateIntegration_def run_status_def touch_mapping_def
  importOrdersFromWooCommerce_def import_run_def run_failed_def

lemmas run_examples = quiet_run_def offline_run_def accepting_env_def storefront_order_def
  mapping_zero_def mapping_absent_def mapping_unresolved_def absent_world_def unresolved_world_def

lemma already_imported_is_skipped: "string_includes ''Order already imported'' ''already imported''"
  by simp

lemma importOrder_fresh:
  assumes fresh: "filter (same_external_order (wo_id wooOrder) iid) (ops_orders w) = []"
    and stored: "order_insert env = Inr new_id"
  shows "ir_success (fst (importOrder env wooOrder iid w))
       \<and> ir_orderId (fst (importOrder env wooOrder iid w)) = Some new_id
       \<and> (\<exists>row. ops_orders (snd (importOrder env wooOrder iid w)) = ops_orders w @ [row]
                \<and> same_external_order (wo_id wooOrder) iid row \<and> o_id row = new_id
                \<and> o_channel row = ''ONLINE'')"
  by (simp add: importOrder_def orderExists_def maybeSingle_def fresh stored Let_def
        same_external_order_def)

lemma importOrder_present:
  assumes one: "filter (same_external_order (wo_id wooOrder) iid) (ops_orders w) = [row]"
    and answered: "\<not> exists_query_failed env"
  shows "importOrder env wooOrder iid w
         = (\<lparr> ir_success = False, ir_orderId = None, ir_externalOrderId = wo_id wooOrder,
              ir_error = Some ''Order already imported'' \<rparr>, w)"
  by (simp add: importOrder_def orderExists_def maybeSingle_def one answered)

text \<open>
  Claim C5 says that importing the same external order id twice against the same
  integration always leaves one stored order. \<open>orderExists\<close> prints the error of a
  failed query and answers \<open>false\<close>, so when the second existence query fails the
  order is inserted again: two orders are stored for the external id 42, and the batch
  loop counts both as imported and none as skipped.
\<close>

theorem failed_existence_query_stores_order_twice:
  "exists_query_failed blind_env
   \<and> length (filter (same_external_order 42 ''int-woo'') (ops_orders example_world)) = 0
   \<and> ir_success (fst (importOrder accepting_env storefront_order ''int-woo'' example_world))
   \<and> ir_success (fst (importOrder blind_env storefront_order ''int-woo''
          (snd (importOrder accepting_env storefront_order ''int-woo'' example_world))))
   \<and> map o_id (filter (same_external_order 42 ''int-woo'')
        (ops_orders (snd (importOrder blind_env storefront_order ''int-woo''
          (snd (importOrder accepting_env storefront_order ''int-woo'' example_world))))))
       = [''ord-new'', ''ord-dup'']
   \<and> fst (import_loop blind_second 0 ''int-woo'' [storefront_order, storefront_order]
          \<lparr> im_total = 2, im_imported = 0, im_skipped = 0, im_failed = 0, im_errors = [] \<rparr>
          example_world)
       = \<lparr> im_total = 2, im_imported = 2, im_skipped = 0, im_failed = 0, im_errors = [] \<rparr>"
  by (simp add: importOrder_def orderExists_def maybeSingle_def same_external_order_def Let_def
        tally_def blind_second_def blind_env_def run_examples example_defs
        show_int_def show_nat.simps digit_char_def)

text \<open>
  Claim C5 as amended. When no order with the external id is stored for the
  integration, the datastore accepts the first insert and answers the second existence
  query, importing the same external order id twice against the same integration
  stores exactly one order; the second import returns the outcome
  \<open>Order already imported\<close>, and the batch loop over both orders counts one imported and
  one skipped, none failed.
\<close>

theorem import_twice_keeps_one_order:
  assumes fresh: "filter (same_external_order (wo_id wooOrder) iid) (ops_orders w) = []"
    and stored: "order_insert env1 = Inr new_id"
    and answered: "\<not> exists_query_failed env2"
    and same: "wo_id wooOrder2 = wo_id wooOrder"
  shows "ir_success (fst (importOrder env1 wooOrder iid w))
       \<and> fst (importOrder env2 wooOrder2 iid (snd (importOrder env1 wooOrder iid w)))
           = \<lparr> ir_success = False, ir_orderId = None, ir_externalOrderId = wo_id wooOrder,
               ir_error = Some ''Order already imported'' \<rparr>
       \<and> length (filter (same_external_order (wo_id wooOrder) iid)
            (ops_orders (snd (importOrder env2 wooOrder2 iid (snd (importOrder env1 wooOrder iid w))))))
           = 1
       \<and> fst (import_loop (\<lambda>i. if i = 0 then env1 else env2) 0 iid [wooOrder, wooOrder2] results w)
           = results \<lparr> im_imported := im_imported results + 1, im_skipped := im_skipped results + 1 \<rparr>"
proof -
  obtain r1 w1 where first: "importOrder env1 wooOrder iid w = (r1, w1)"
    by (cases "importOrder env1 wooOrder iid w")
  from importOrder_fresh [OF fresh stored] first
  obtain row where r1: "ir_success r1"
    and w1: "ops_orders w1 = ops_orders w @ [row]"
    and row: "same_external_order (wo_id wooOrder) iid row"
    by auto
  have one: "filter (same_external_order (wo_id wooOrder2) iid) (ops_orders w1) = [row]"
    using fresh row by (simp add: w1 same)
  have second: "importOrder env2 wooOrder2 iid w1
         = (\<lparr> ir_success = False, ir_orderId = None, ir_externalOrderId = wo_id wooOrder,
              ir_error = Some ''Order already imported'' \<rparr>, w1)"
    using importOrder_present [OF one answered] by (simp add: same)
  have loop: "fst (import_loop (\<lambda>i. if i = 0 then env1 else env2) 0 iid [wooOrder, wooOrder2] results w)
           = results \<lparr> im_imported := im_imported results + 1, im_skipped := im_skipped results + 1 \<rparr>"
    using r1 by (simp add: first second tally_def)
  show ?thesis
    using r1 one loop by (simp add: first second same)
qed

text \<open>
  The theorem at a storefront order imported twice into the example world.
\<close>

theorem import_twice_keeps_one_order_witness:
  "filter (same_external_order (wo_id storefront_order) ''int-woo'') (ops_orders example_world) = []
   \<and> order_insert accepting_env = Inr ''ord-new'' \<and> \<not> exists_query_failed accepting_env
   \<and> fst (importOrder accepting_env storefront_order ''int-woo''
            (snd (importOrder accepting_env storefront_order ''int-woo'' example_world)))
       = \<lparr> ir_success = False, ir_orderId = None, ir_externalOrderId = 42,
           ir_error = Some ''Order already imported'' \<rparr>
   \<and> length (filter (same_external_order (wo_id storefront_order) ''int-woo'')
        (ops_orders (snd (importOrder accepting_env storefront_order ''int-woo''
            (snd (importOrder accepting_env storefront_order ''int-woo'' example_world)))))) = 1"
proof -
  have a: "filter (same_external_order (wo_id storefront_order) ''int-woo'') (ops_orders example_world) = []"
    by (simp add: same_external_order_def run_examples example_defs show_int_def show_nat.simps digit_char_def)
  have b: "order_insert accepting_env = Inr ''ord-new''" "\<not> exists_query_failed accepting_env"
    by (simp_all add: accepting_env_def)
  have c: "wo_id storefront_order = 42" by (simp add: storefront_order_def)
  show ?thesis
    using import_twice_keeps_one_order [OF a b refl] a b by (simp add: c)
qed


section \<open>Properties of the inventory export\<close>

text \<open>
  When the lookup of a quantity returns nothing: the query failed or matched several
  rows, or no branch applies. A product with no row is not among these cases.
\<close>

lemma maybeSingle_error: "maybeSingle failed rows = None \<longleftrightarrow> failed \<or> length rows > 1"
  by (cases rows; cases "tl rows") (simp_all add: maybeSingle_def)

lemma lookup_none: "(case q of None \<Rightarrow> None | Some d \<Rightarrow> Some (g d)) = None \<longleftrightarrow> q = None"
  by (cases q) simp_all

lemma getWarehouseInventory_none:
  "getWarehouseInventory failed productId productType variationId w = None \<longleftrightarrow>
     (if productType = ''CIGAR'' \<and> truthy variationId
      then failed \<or> length (filter (\<lambda>r. ci_product_id r = productId \<and> Some (ci_variation_id r) = variationId)
                                (inventory_cigars w)) > 1
      else if productType = ''BUNDLE''
      then failed \<or> length (filter (\<lambda>r. st_id r = productId) (bundles w)) > 1
      else if productType = ''ACCESSORY''
      then failed \<or> length (filter (\<lambda>r. st_id r = productId) (accessories w)) > 1
      else True)"
  by (simp add: getWarehouseInventory_def lookup_none maybeSingle_error)

lemma getWarehouseInventory_cong:
  assumes "inventory_cigars w' = inventory_cigars w" "bundles w' = bundles w" "accessories w' = accessories w"
  shows "getWarehouseInventory failed p t v w' = getWarehouseInventory failed p t v w"
  by (simp add: getWarehouseInventory_def assms)

lemma inventory_step_skipped:
  assumes "getWarehouseInventory (inventory_query_failed (envs i)) (pm_warehouse_product_id m)
             (pm_warehouse_product_type m) (pm_warehouse_variation_id m) w = None"
  shows "inventory_loop envs stamp i (m # rest) updates results w
         = inventory_loop envs stamp (Suc i) rest updates
             (results\<lparr> is_skipped := is_skipped results + 1,
                       is_errors := is_errors results
                         @ [''Product '' @ pm_warehouse_product_id m @ '' not found in warehouse''] \<rparr>) w"
  by (simp add: assms)

lemma inventory_step_synced:
  assumes "getWarehouseInventory (inventory_query_failed (envs i)) (pm_warehouse_product_id m)
             (pm_warehouse_product_type m) (pm_warehouse_variation_id m) w = Some n"
    and "request (variation_response (envs i)) = Inr ()"
  shows "inventory_loop envs stamp i (m # rest) updates results w
         = (let productId = parseInt (Some (pm_external_product_id m));
                variationId = (if truthy (pm_external_variation_id m)
                               then parseInt (pm_external_variation_id m) else None);
                individually = (case variationId of None \<Rightarrow> False | Some v \<Rightarrow> v \<noteq> 0)
            in inventory_loop envs stamp (Suc i) rest
                 (if individually then updates else updates @ [(productId, n)])
                 (results\<lparr> is_synced := is_synced results + 1 \<rparr>)
                 (touch_mapping stamp (pm_id m)
                    (if individually
                     then w\<lparr> calls := calls w
                            @ [WooUpdateProductVariationStock productId (the variationId) n] \<rparr>
                     else w)))"
  by (simp add: assms Let_def)

lemma touch_mapping_fields [simp]:
  "inventory_cigars (touch_mapping stamp mid w) = inventory_cigars w"
  "bundles (touch_mapping stamp mid w) = bundles w"
  "accessories (touch_mapping stamp mid w) = accessories w"
  "integration_sync_logs (touch_mapping stamp mid w) = integration_sync_logs w"
  "integrations (touch_mapping stamp mid w) = integrations w"
  by (simp_all add: touch_mapping_def)

lemma getWarehouseInventory_touch [simp]:
  "getWarehouseInventory failed p t v (touch_mapping stamp mid w) = getWarehouseInventory failed p t v w"
  by (rule getWarehouseInventory_cong) simp_all

lemma getWarehouseInventory_calls [simp]:
  "getWarehouseInventory failed p t v (w\<lparr> calls := c \<rparr>) = getWarehouseInventory failed p t v w"
  by (rule getWarehouseInventory_cong) simp_all

lemma getWarehouseInventory_sync_logs [simp]:
  "getWarehouseInventory failed p t v (w\<lparr> integration_sync_logs := c \<rparr>) = getWarehouseInventory failed p t v w"
  by (rule getWarehouseInventory_cong) simp_all

lemma importOrder_keeps:
  "integration_sync_logs (snd (importOrder env wooOrder iid w)) = integration_sync_logs w
   \<and> integrations (snd (importOrder env wooOrder iid w)) = integrations w
   \<and> calls (snd (importOrder env wooOrder iid w)) = calls w"
  by (simp add: importOrder_def Let_def split: sum.splits)

lemma tally_counts:
  "im_total (tally wooOrder result results) = im_total results
   \<and> im_imported (tally wooOrder result results) + im_skipped (tally wooOrder result results)
       + im_failed (tally wooOrder result results)
     = im_imported results + im_skipped results + im_failed results + 1"
  by (simp add: tally_def)

lemma import_loop_keeps:
  "integration_sync_logs (snd (import_loop envs i iid orders results w)) = integration_sync_logs w
   \<and> integrations (snd (import_loop envs i iid orders results w)) = integrations w
   \<and> calls (snd (import_loop envs i iid orders results w)) = calls w
   \<and> im_total (fst (import_loop envs i iid orders results w)) = im_total results
   \<and> im_imported (fst (import_loop envs i iid orders results w))
       + im_skipped (fst (import_loop envs i iid orders results w))
       + im_failed (fst (import_loop envs i iid orders results w))
     = im_imported results + im_skipped results + im_failed results + int (length orders)"
proof (induction orders arbitrary: i results w)
  case Nil
  show ?case by simp
next
  case (Cons wooOrder rest)
  obtain result w1 where step: "importOrder (envs i) wooOrder iid w = (result, w1)"
    by (cases "importOrder (envs i) wooOrder iid w")
  have keep: "integration_sync_logs w1 = integration_sync_logs w \<and> integrations w1 = integrations w
      \<and> calls w1 = calls w"
    using importOrder_keeps [of "envs i" wooOrder iid w] by (simp add: step)
  show ?case
    using Cons.IH [of "Suc i" "tally wooOrder result results" w1] keep
      tally_counts [of wooOrder result results]
    by (simp add: step)
qed

lemma inventory_loop_keeps:
  "integration_sync_logs (snd (snd (inventory_loop envs stamp i ms updates results w))) = integration_sync_logs w
   \<and> integrations (snd (snd (inventory_loop envs stamp i ms updates results w))) = integrations w
   \<and> is_total (fst (snd (inventory_loop envs stamp i ms updates results w))) = is_total results
   \<and> is_synced (fst (snd (inventory_loop envs stamp i ms updates results w)))
       + is_skipped (fst (snd (inventory_loop envs stamp i ms updates results w)))
       + is_failed (fst (snd (inventory_loop envs stamp i ms updates results w)))
     = is_synced results + is_skipped results + is_failed results + int (length ms)"
proof (induction ms arbitrary: i updates results w)
  case Nil
  show ?case by simp
next
  case (Cons m rest)
  show ?case
  proof (cases "getWarehouseInventory (inventory_query_failed (envs i)) (pm_warehouse_product_id m)
             (pm_warehouse_product_type m) (pm_warehouse_variation_id m) w")
    case None
    show ?thesis
      using Cons.IH [of "Suc i" updates _ w] by (simp add: None)
  next
    case (Some n)
    let ?pid = "parseInt (Some (pm_external_product_id m))"
    let ?vid = "if truthy (pm_external_variation_id m) then parseInt (pm_external_variation_id m) else None"
    show ?thesis
    proof (cases "case ?vid of None \<Rightarrow> False | Some v \<Rightarrow> v \<noteq> 0")
      case False
      show ?thesis
        using Cons.IH [of "Suc i" "updates @ [(?pid, n)]" _ "touch_mapping stamp (pm_id m) w"] False
        by (simp add: Some Let_def)
    next
      case True
      let ?w1 = "w\<lparr> calls := calls w @ [WooUpdateProductVariationStock ?pid (the ?vid) n] \<rparr>"
      show ?thesis
      proof (cases "request (variation_response (envs i))")
        case (Inl e)
        show ?thesis
          using Cons.IH [of "Suc i" updates _ ?w1] True
          by (simp add: Some Let_def Inl)
      next
        case (Inr u)
        show ?thesis
          using Cons.IH [of "Suc i" updates _ "touch_mapping stamp (pm_id m) ?w1"] True
          by (simp add: Some Let_def Inr)
      qed
    qed
  qed
qed

lemma getIntegration_found:
  assumes "getIntegration failed iid w = Inr (Some integration)"
  shows "filter (\<lambda>i. i_id i = iid) (integrations w) = [integration]"
  using assms
  by (cases "filter (\<lambda>i. i_id i = iid) (integrations w)")
     (auto simp: getIntegration_def single_def split: option.splits list.splits)

lemma updateSyncLog_ok:
  assumes "filter (\<lambda>l. sl_id l = lid) (integration_sync_logs w) = [l0]"
  shows "integrationService_updateSyncLog None lid f w
         = (Inr (f l0),
            w\<lparr> integration_sync_logs :=
                  map (\<lambda>l. if sl_id l = lid then f l else l) (integration_sync_logs w) \<rparr>)"
  by (simp add: integrationService_updateSyncLog_def single_def assms)




lemma import_run_completes:
  assumes resp: "request (orders_response env) = Inr orders"
    and logs: "filter (\<lambda>l. sl_id l = sl_id syncLog) (integration_sync_logs w) = [l0]"
    and ints: "filter (\<lambda>i. i_id i = iid) (integrations w) = [i0]"
    and ok: "close_log_failed env = None" "close_integration_failed env = None"
  shows "\<exists>results w0.
           import_run env iid options syncLog w
             = (Inr results,
                w0\<lparr> integration_sync_logs :=
                      map (\<lambda>l. if sl_id l = sl_id syncLog
                                then l\<lparr> sl_status := run_status (im_failed results) (im_imported results),
                                        sl_records_processed := im_imported results + im_skipped results,
                                        sl_records_failed := im_failed results,
                                        sl_completed_at := Some (clock env),
                                        sl_details := Some (ImportRun results),
                                        sl_error_details :=
                                          (if im_errors results \<noteq> [] then Some (ErrorList (im_errors results))
                                           else sl_error_details l) \<rparr>
                                else l) (integration_sync_logs w),
                    integrations :=
                      map (\<lambda>i. if i_id i = iid
                                then i\<lparr> i_last_sync_at := Some (clock env), i_sync_status := ''CONNECTED'' \<rparr>
                                else i) (integrations w) \<rparr>)
           \<and> im_total results = int (length orders)
           \<and> im_imported results + im_skipped results + im_failed results = int (length orders)"
proof -
  let ?w1 = "w\<lparr> calls := calls w @ [WooGetOrders (order_query_params options)] \<rparr>"
  let ?r0 = "\<lparr> im_total = int (length orders), im_imported = 0, im_skipped = 0,
                       im_failed = 0, im_errors = [] \<rparr>"
  obtain results w2 where loop: "import_loop (order_envs env) 0 iid orders ?r0 ?w1 = (results, w2)"
    by (cases "import_loop (order_envs env) 0 iid orders ?r0 ?w1")
  have keep: "integration_sync_logs w2 = integration_sync_logs w" "integrations w2 = integrations w"
    "im_total results = int (length orders)"
    "im_imported results + im_skipped results + im_failed results = int (length orders)"
    using import_loop_keeps [of "order_envs env" 0 iid orders ?r0 ?w1] unfolding loop by simp_all
  have l2: "filter (\<lambda>l. sl_id l = sl_id syncLog) (integration_sync_logs w2) = [l0]"
    using logs keep by simp
  show ?thesis
    apply (rule exI [of _ results], rule exI [of _ w2])
    apply (simp add: import_run_def Let_def resp loop ok updateSyncLog_ok [OF l2]
             updateIntegration_def single_def keep ints)
    done
qed


lemma inventory_run_completes:
  assumes maps: "getProductMappings (get_mappings_failed env) iid w = Inr all_mappings"
    and logs: "filter (\<lambda>l. sl_id l = sl_id syncLog) (integration_sync_logs w) = [l0]"
    and ints: "filter (\<lambda>i. i_id i = iid) (integrations w) = [i0]"
    and ok: "close_log_failed env = None" "close_integration_failed env = None"
    and loop: "inventory_loop (mapping_envs env) (clock env) 0 (selected_mappings ids all_mappings) []
                 \<lparr> is_total = int (length (selected_mappings ids all_mappings)), is_synced = 0,
                   is_skipped = 0, is_failed = 0, is_errors = [] \<rparr> w = (updates, looped, w1)"
  shows "\<exists>results w0.
           inventory_run env iid ids syncLog w
             = (Inr results,
                w0\<lparr> integration_sync_logs :=
                      map (\<lambda>l. if sl_id l = sl_id syncLog
                                then l\<lparr> sl_status := run_status (is_failed results) (is_synced results),
                                        sl_records_processed := is_synced results + is_skipped results,
                                        sl_records_failed := is_failed results,
                                        sl_completed_at := Some (clock env),
                                        sl_details := Some (InventoryRun results),
                                        sl_error_details :=
                                          (if is_errors results \<noteq> [] then Some (ErrorList (is_errors results))
                                           else sl_error_details l) \<rparr>
                                else l) (integration_sync_logs w),
                    integrations :=
                      map (\<lambda>i. if i_id i = iid
                                then i\<lparr> i_last_sync_at := Some (clock env), i_sync_status := ''CONNECTED'' \<rparr>
                                else i) (integrations w) \<rparr>)
           \<and> is_total results = is_total looped \<and> is_synced results = is_synced looped
           \<and> is_skipped results = is_skipped looped \<and> is_failed results = is_failed looped
           \<and> set (is_errors looped) \<subseteq> set (is_errors results)"
proof -
  let ?ms = "selected_mappings ids all_mappings"
  let ?r0 = "\<lparr> is_total = int (length ?ms), is_synced = 0, is_skipped = 0, is_failed = 0,
               is_errors = [] \<rparr>"
  have keep: "integration_sync_logs w1 = integration_sync_logs w" "integrations w1 = integrations w"
    using inventory_loop_keeps [of "mapping_envs env" "clock env" 0 ?ms "[]" ?r0 w]
    unfolding loop by simp_all
  let ?w2 = "if updates \<noteq> [] then w1\<lparr> calls := calls w1 @ [WooBatchUpdateProducts updates] \<rparr> else w1"
  let ?results = "if updates \<noteq> []
                  then (case request (batch_response env) of
                          Inl e \<Rightarrow> looped\<lparr> is_errors := is_errors looped @ [''Batch update failed: '' @ e] \<rparr>
                        | Inr _ \<Rightarrow> looped)
                  else looped"
  have l2: "filter (\<lambda>l. sl_id l = sl_id syncLog) (integration_sync_logs ?w2) = [l0]"
    using logs keep by simp
  have i2: "integrations ?w2 = integrations w" using keep by simp
  have l2': "integration_sync_logs ?w2 = integration_sync_logs w" using keep by simp
  have run: "inventory_run env iid ids syncLog w
      = (Inr ?results,
         ?w2\<lparr> integration_sync_logs :=
                      map (\<lambda>l. if sl_id l = sl_id syncLog
                                then l\<lparr> sl_status := run_status (is_failed ?results) (is_synced ?results),
                                        sl_records_processed := is_synced ?results + is_skipped ?results,
                                        sl_records_failed := is_failed ?results,
                                        sl_completed_at := Some (clock env),
                                        sl_details := Some (InventoryRun ?results),
                                        sl_error_details :=
                                          (if is_errors ?results \<noteq> [] then Some (ErrorList (is_errors ?results))
                                           else sl_error_details l) \<rparr>
                                else l) (integration_sync_logs w),
                    integrations :=
                      map (\<lambda>i. if i_id i = iid
                                then i\<lparr> i_last_sync_at := Some (clock env), i_sync_status := ''CONNECTED'' \<rparr>
                                else i) (integrations w) \<rparr>)"
    unfolding inventory_run_def maps Let_def sum.case loop prod.case ok
      updateSyncLog_ok [OF l2] l2'
    by (simp add: updateIntegration_def single_def i2 ints)
  have same: "is_total ?results = is_total looped \<and> is_synced ?results = is_synced looped
           \<and> is_skipped ?results = is_skipped looped \<and> is_failed ?results = is_failed looped
           \<and> set (is_errors looped) \<subseteq> set (is_errors ?results)"
    by (auto split: sum.splits)
  show ?thesis
    using same by (intro exI [of _ ?results] exI [of _ ?w2] conjI) (simp_all add: run)
qed

lemma inventory_loop_zero_then_miss:
  assumes qa: "getWarehouseInventory (inventory_query_failed (envs 0)) (pm_warehouse_product_id a)
             (pm_warehouse_product_type a) (pm_warehouse_variation_id a) w = Some 0"
    and pa: "request (variation_response (envs 0)) = Inr ()"
    and qb: "getWarehouseInventory (inventory_query_failed (envs (Suc 0))) (pm_warehouse_product_id b)
             (pm_warehouse_product_type b) (pm_warehouse_variation_id b) w = None"
  shows "fst (snd (inventory_loop envs stamp 0 [a, b] [] results w))
         = results\<lparr> is_synced := is_synced results + 1, is_skipped := is_skipped results + 1,
                    is_errors := is_errors results
                      @ [''Product '' @ pm_warehouse_product_id b @ '' not found in warehouse''] \<rparr>"
  by (simp add: Let_def qa pa qb)

lemma inventory_loop_miss_then_zero:
  assumes qa: "getWarehouseInventory (inventory_query_failed (envs 0)) (pm_warehouse_product_id a)
             (pm_warehouse_product_type a) (pm_warehouse_variation_id a) w = None"
    and qb: "getWarehouseInventory (inventory_query_failed (envs (Suc 0))) (pm_warehouse_product_id b)
             (pm_warehouse_product_type b) (pm_warehouse_variation_id b) w = Some 0"
    and pb: "request (variation_response (envs (Suc 0))) = Inr ()"
  shows "fst (snd (inventory_loop envs stamp 0 [a, b] [] results w))
         = results\<lparr> is_skipped := is_skipped results + 1, is_synced := is_synced results + 1,
                    is_errors := is_errors results
                      @ [''Product '' @ pm_warehouse_product_id a @ '' not found in warehouse''] \<rparr>"
  by (simp add: Let_def qa qb pb)

text \<open>
  The skip branch of the loop. In an export whose two selected mappings are one that
  resolves to the quantity 0 and one whose lookup returns no quantity, in either order,
  with the run's log row and the closing updates accepted by the datastore (and the
  storefront accepting an individual stock update, should the first need one), the
  result is total 2, synced 1, skipped 1, failed 0, and its errors hold the message
  naming the warehouse product id of the unresolved mapping.
\<close>

lemma export_skips_unresolved_mapping:
  assumes integ: "getIntegration (get_integration_failed env) iid w = Inr (Some integration)"
    and woo: "i_platform_type integration = ''WOOCOMMERCE''"
    and cfg: "i_config integration = Some config"
    and ins: "sync_log_insert env = Inr lid"
    and fresh: "\<forall>l \<in> set (integration_sync_logs w). sl_id l \<noteq> lid"
    and maps: "get_mappings_failed env = None"
    and two: "selected_mappings ids (filter (\<lambda>m. pm_integration_id m = iid) (product_mappings w)) = [a, b]"
    and ok: "close_log_failed env = None" "close_integration_failed env = None"
    and scenario:
      "(getWarehouseInventory (inventory_query_failed (mapping_envs env 0)) (pm_warehouse_product_id a)
           (pm_warehouse_product_type a) (pm_warehouse_variation_id a) w = Some 0
        \<and> request (variation_response (mapping_envs env 0)) = Inr ()
        \<and> getWarehouseInventory (inventory_query_failed (mapping_envs env 1)) (pm_warehouse_product_id b)
           (pm_warehouse_product_type b) (pm_warehouse_variation_id b) w = None
        \<and> missing = b)
       \<or> (getWarehouseInventory (inventory_query_failed (mapping_envs env 0)) (pm_warehouse_product_id a)
           (pm_warehouse_product_type a) (pm_warehouse_variation_id a) w = None
        \<and> missing = a
        \<and> getWarehouseInventory (inventory_query_failed (mapping_envs env 1)) (pm_warehouse_product_id b)
           (pm_warehouse_product_type b) (pm_warehouse_variation_id b) w = Some 0
        \<and> request (variation_response (mapping_envs env 1)) = Inr ())"
  shows "\<exists>r. fst (syncInventoryToWooCommerce env iid ids w) = Inr r
            \<and> is_total r = 2 \<and> is_synced r = 1 \<and> is_skipped r = 1 \<and> is_failed r = 0
            \<and> (''Product '' @ pm_warehouse_product_id missing @ '' not found in warehouse'')
                 \<in> set (is_errors r)"
proof -
  let ?log0 = "\<lparr> sl_id = lid, sl_integration_id = iid, sl_sync_type = ''INVENTORY_EXPORT'',
                 sl_direction = ''OUTBOUND'', sl_status = ''RUNNING'',
                 sl_records_processed = 0, sl_records_failed = 0, sl_details = None,
                 sl_error_details = None, sl_started_at = clock env, sl_completed_at = None \<rparr>"
  let ?w1 = "w\<lparr> integration_sync_logs := integration_sync_logs w @ [?log0] \<rparr>"
  let ?all = "filter (\<lambda>m. pm_integration_id m = iid) (product_mappings w)"
  let ?r0 = "\<lparr> is_total = int (length (selected_mappings ids ?all)), is_synced = 0,
                   is_skipped = 0, is_failed = 0, is_errors = [] \<rparr>"
  have i1: "filter (\<lambda>i. i_id i = iid) (integrations ?w1) = [integration]"
    using getIntegration_found [OF integ] by simp
  have l1: "filter (\<lambda>l. sl_id l = sl_id ?log0) (integration_sync_logs ?w1) = [?log0]"
    using fresh by (simp add: filter_empty_conv)
  have m1: "getProductMappings (get_mappings_failed env) iid ?w1 = Inr ?all"
    by (simp add: getProductMappings_def maps)
  obtain updates looped w2 where loop:
    "inventory_loop (mapping_envs env) (clock env) 0 (selected_mappings ids ?all) [] ?r0 ?w1
       = (updates, looped, w2)"
    by (cases "inventory_loop (mapping_envs env) (clock env) 0 (selected_mappings ids ?all) [] ?r0 ?w1") auto
  have looped: "is_total looped = 2 \<and> is_synced looped = 1 \<and> is_skipped looped = 1
      \<and> is_failed looped = 0
      \<and> (''Product '' @ pm_warehouse_product_id missing @ '' not found in warehouse'') \<in> set (is_errors looped)"
  proof -
    have "looped = fst (snd (inventory_loop (mapping_envs env) (clock env) 0 [a, b] [] ?r0 ?w1))"
      using loop by (simp add: two)
    moreover from scenario have
      "fst (snd (inventory_loop (mapping_envs env) (clock env) 0 [a, b] [] ?r0 ?w1))
         = ?r0\<lparr> is_synced := 1, is_skipped := 1,
                 is_errors := [''Product '' @ pm_warehouse_product_id missing @ '' not found in warehouse''] \<rparr>"
    proof (elim disjE conjE)
      assume a: "getWarehouseInventory (inventory_query_failed (mapping_envs env 0)) (pm_warehouse_product_id a)
           (pm_warehouse_product_type a) (pm_warehouse_variation_id a) w = Some 0"
        "request (variation_response (mapping_envs env 0)) = Inr ()"
        "getWarehouseInventory (inventory_query_failed (mapping_envs env 1)) (pm_warehouse_product_id b)
           (pm_warehouse_product_type b) (pm_warehouse_variation_id b) w = None"
        "missing = b"
      show ?thesis
        using a
        by (subst inventory_loop_zero_then_miss) simp_all
    next
      assume a: "getWarehouseInventory (inventory_query_failed (mapping_envs env 0)) (pm_warehouse_product_id a)
           (pm_warehouse_product_type a) (pm_warehouse_variation_id a) w = None"
        "missing = a"
        "getWarehouseInventory (inventory_query_failed (mapping_envs env 1)) (pm_warehouse_product_id b)
           (pm_warehouse_product_type b) (pm_warehouse_variation_id b) w = Some 0"
        "request (variation_response (mapping_envs env 1)) = Inr ()"
      show ?thesis
        using a
        by (subst inventory_loop_miss_then_zero) simp_all
    qed
    ultimately show ?thesis by (simp add: two)
  qed
  from inventory_run_completes [OF m1 l1 i1 ok loop]
  obtain results w0 where run: "inventory_run env iid ids ?log0 ?w1 = (Inr results, w0)"
    and same: "is_total results = is_total looped" "is_synced results = is_synced looped"
      "is_skipped results = is_skipped looped" "is_failed results = is_failed looped"
      "set (is_errors looped) \<subseteq> set (is_errors results)"
    by blast
  have "fst (syncInventoryToWooCommerce env iid ids w) = Inr results"
    by (simp add: syncInventoryToWooCommerce_def integ woo cfg new_WooCommerceClient_def ins
          integrationService_createSyncLog_def Let_def run)
  then show ?thesis using looped same by auto
qed

text \<open>
  The lemma at a bundle of quantity 0 and a \<open>CIGAR\<close> mapping without variation id.
\<close>

lemma export_skips_unresolved_mapping_example:
  "getIntegration (get_integration_failed quiet_run) ''int-woo'' unresolved_world = Inr (Some woo_integration)
   \<and> selected_mappings None (filter (\<lambda>m. pm_integration_id m = ''int-woo'') (product_mappings unresolved_world))
       = [mapping_zero, mapping_unresolved]
   \<and> getWarehouseInventory (inventory_query_failed (mapping_envs quiet_run 0)) (pm_warehouse_product_id mapping_zero)
        (pm_warehouse_product_type mapping_zero) (pm_warehouse_variation_id mapping_zero) unresolved_world = Some 0
   \<and> getWarehouseInventory (inventory_query_failed (mapping_envs quiet_run 1)) (pm_warehouse_product_id mapping_unresolved)
        (pm_warehouse_product_type mapping_unresolved) (pm_warehouse_variation_id mapping_unresolved) unresolved_world = None
   \<and> (\<exists>r. fst (syncInventoryToWooCommerce quiet_run ''int-woo'' None unresolved_world) = Inr r
            \<and> is_total r = 2 \<and> is_synced r = 1 \<and> is_skipped r = 1 \<and> is_failed r = 0
            \<and> ''Product c7 not found in warehouse'' \<in> set (is_errors r))"
proof -
  have integ: "getIntegration (get_integration_failed quiet_run) ''int-woo'' unresolved_world = Inr (Some woo_integration)"
    by (simp add: getIntegration_def single_def run_examples example_defs)
  have woo: "i_platform_type woo_integration = ''WOOCOMMERCE''" by (simp add: woo_integration_def)
  have cfg: "i_config woo_integration = Some \<lparr> apiKey = None, webhookSecret = Some ''s3cret'' \<rparr>"
    by (simp add: woo_integration_def)
  have ins: "sync_log_insert quiet_run = Inr ''run-1''" by (simp add: quiet_run_def)
  have fresh: "\<forall>l \<in> set (integration_sync_logs unresolved_world). sl_id l \<noteq> ''run-1''"
    by (simp add: run_examples example_defs)
  have maps: "get_mappings_failed quiet_run = None" by (simp add: quiet_run_def)
  have two: "selected_mappings None (filter (\<lambda>m. pm_integration_id m = ''int-woo'') (product_mappings unresolved_world))
       = [mapping_zero, mapping_unresolved]"
    by (simp add: selected_mappings_def run_examples example_defs)
  have ok: "close_log_failed quiet_run = None" "close_integration_failed quiet_run = None"
    by (simp_all add: quiet_run_def)
  have qa: "getWarehouseInventory (inventory_query_failed (mapping_envs quiet_run 0)) (pm_warehouse_product_id mapping_zero)
        (pm_warehouse_product_type mapping_zero) (pm_warehouse_variation_id mapping_zero) unresolved_world = Some 0"
    by (simp add: getWarehouseInventory_def maybeSingle_def truthy_def run_examples example_defs)
  have pa: "request (variation_response (mapping_envs quiet_run 0)) = Inr ()"
    by (simp add: request_def quiet_run_def)
  have qb: "getWarehouseInventory (inventory_query_failed (mapping_envs quiet_run 1)) (pm_warehouse_product_id mapping_unresolved)
        (pm_warehouse_product_type mapping_unresolved) (pm_warehouse_variation_id mapping_unresolved) unresolved_world = None"
    by (simp add: getWarehouseInventory_def maybeSingle_def truthy_def run_examples example_defs)
  have id: "pm_warehouse_product_id mapping_unresolved = ''c7''" by (simp add: mapping_unresolved_def)
  have sc: "(getWarehouseInventory (inventory_query_failed (mapping_envs quiet_run 0)) (pm_warehouse_product_id mapping_zero)
           (pm_warehouse_product_type mapping_zero) (pm_warehouse_variation_id mapping_zero) unresolved_world = Some 0
        \<and> request (variation_response (mapping_envs quiet_run 0)) = Inr ()
        \<and> getWarehouseInventory (inventory_query_failed (mapping_envs quiet_run 1)) (pm_warehouse_product_id mapping_unresolved)
           (pm_warehouse_product_type mapping_unresolved) (pm_warehouse_variation_id mapping_unresolved) unresolved_world = None
        \<and> mapping_unresolved = mapping_unresolved)
       \<or> (getWarehouseInventory (inventory_query_failed (mapping_envs quiet_run 0)) (pm_warehouse_product_id mapping_zero)
           (pm_warehouse_product_type mapping_zero) (pm_warehouse_variation_id mapping_zero) unresolved_world = None
        \<and> mapping_unresolved = mapping_zero
        \<and> getWarehouseInventory (inventory_query_failed (mapping_envs quiet_run 1)) (pm_warehouse_product_id mapping_unresolved)
           (pm_warehouse_product_type mapping_unresolved) (pm_warehouse_variation_id mapping_unresolved) unresolved_world = Some 0
        \<and> request (variation_response (mapping_envs quiet_run 1)) = Inr ())"
    using qa pa qb by blast
  show ?thesis
    using export_skips_unresolved_mapping [OF integ woo cfg ins fresh maps two ok sc] integ two qa qb
    by (simp add: id)
qed

lemma parseInt_examples:
  "parseInt (Some ''101'') = Some 101" "parseInt (Some ''102'') = Some 102"
  by (simp_all add: parseInt_def show_nullable_def is_space_def is_radix_digit_def digit_val_def
        digits_value_def Let_def)

text \<open>
  Claim C7. An export over two selected mappings, one that resolves to the quantity 0
  and one whose product is missing from the warehouse, is to give total 2, synced 1,
  skipped 1, failed 0, with an error that names the missing product. The loop does
  skip a mapping whose lookup returns \<open>null\<close>, with the message
  \<open>Product <id> not found in warehouse\<close>, but the lookup returns
  \<open>data?.stock_quantity ?? 0\<close> for a product that has no row. So the bundle \<open>b404\<close>,
  which is not in the table, resolves to the quantity 0: both mappings are counted as
  synced, none is skipped, no error is recorded, and the quantity 0 is sent to the
  storefront for the product of the missing bundle.
\<close>

theorem absent_bundle_is_synced_as_zero:
  "pm_warehouse_product_id mapping_absent = ''b404''
   \<and> map st_id (bundles absent_world) = [''b1'']
   \<and> getWarehouseInventory False (pm_warehouse_product_id mapping_absent)
        (pm_warehouse_product_type mapping_absent) (pm_warehouse_variation_id mapping_absent) absent_world
      = Some 0
   \<and> fst (syncInventoryToWooCommerce quiet_run ''int-woo'' None absent_world)
      = Inr \<lparr> is_total = 2, is_synced = 2, is_skipped = 0, is_failed = 0, is_errors = [] \<rparr>
   \<and> calls (snd (syncInventoryToWooCommerce quiet_run ''int-woo'' None absent_world))
      = [WooBatchUpdateProducts [(Some 101, 0), (Some 102, 0)]]"
  by (simp add: run_defs run_examples example_defs Let_def parseInt_examples)


section \<open>Properties of the boundary of a run\<close>




























section \<open>Properties of the webhook intake\<close>

text \<open>
  What the handler does reject: a request for an inactive integration, and a request
  whose signature is present and wrong when a secret is stored. Neither is enqueued.
\<close>

lemma webhook_rejects_inactive:
  assumes "getIntegration (get_integration_failed env) (wr_integrationId req) w = Inr (Some integration)"
    and "\<not> i_is_active integration"
  shows "post_woocommerce_webhook hmac env req w = (400, w)"
  by (simp add: post_woocommerce_webhook_def assms)

lemma webhook_rejects_bad_signature:
  assumes "getIntegration (get_integration_failed env) (wr_integrationId req) w = Inr (Some integration)"
    and "i_is_active integration" and "i_config integration = Some config"
    and "webhookSecret config = Some secret" and "secret \<noteq> []"
    and "wr_signature req = Some signature" and "signature \<noteq> []"
    and "hmac secret (wr_body req) \<noteq> signature"
  shows "post_woocommerce_webhook hmac env req w = (401, w)"
  by (simp add: post_woocommerce_webhook_def assms truthy_def verifyWebhookSignature_def)

text \<open>
  Claim C9 says that every unauthenticated request is rejected without being enqueued.
  The integration has a webhook secret; the request carries no signature header. The
  handler verifies only when both are present, so it answers 200, enqueues the payload
  and imports the order.
\<close>

theorem unsigned_webhook_is_accepted:
  "getIntegration None ''int-woo'' example_world = Inr (Some woo_integration)
   \<and> (case i_config woo_integration of None \<Rightarrow> None | Some c \<Rightarrow> webhookSecret c) = Some ''s3cret''
   \<and> wr_signature unsigned_request = None
   \<and> fst (post_woocommerce_webhook hmac quiet_run unsigned_request example_world) = 200
   \<and> webhook_queue example_world = []
   \<and> webhook_queue (snd (post_woocommerce_webhook hmac quiet_run unsigned_request example_world))
       = [\<lparr> q_integration_id = ''int-woo'', q_event_type = ''order.created'', q_signature = None,
            q_status = ''PENDING'' \<rparr>]
   \<and> map o_id (ops_orders (snd (post_woocommerce_webhook hmac quiet_run unsigned_request example_world)))
       = map o_id (ops_orders example_world) @ [''ord-new'']"
  by (simp add: post_woocommerce_webhook_def queueWebhook_def processWebhookOrder_def
        importOrder_def orderExists_def same_external_order_def unsigned_request_def
        run_defs run_examples example_defs Let_def show_int_def show_nat.simps digit_char_def)


end
